theory Spec2Isabelle
  imports Main
begin

section \<open>Data model of \<^verbatim>\<open>src/src/combobox.ts\<close>\<close>

text \<open>
  The combobox is an Elm-style state machine: \<^verbatim>\<open>update(config, {model, msg})\<close> returns the next
  model and a list of effect requests. Items are values of a caller-defined type \<open>'a\<close>; the
  code looks at them only through the functions of the configuration. Items are taken to be
  objects, as in the README and the tests, so that the JavaScript test \<^verbatim>\<open>if (item)\<close> on an array
  read fails exactly when the index is out of range. Indices are JavaScript numbers holding
  integers; they are modelled as \<open>int\<close>, because \<^verbatim>\<open>findIndex\<close> returns \<open>-1\<close> and the events
  carry indices the code never checks. A JavaScript number is an IEEE 754 double: where the
  source adds numbers the model adds with \<open>jsAdd\<close>, which rounds as the double addition
  does. \<^verbatim>\<open>NaN\<close>, the infinities and fractions are not values of the model. Strings are
  lists of bytes; only the ASCII letters have a lower case here.
\<close>

datatype item_id = StrId string | NumId int

datatype selected_item_list_direction = LeftToRight | RightToLeft

datatype select_mode = SingleSelect | MultiSelect selected_item_list_direction

datatype input_mode = SelectOnly | SearchMode string

text \<open>
  \<^verbatim>\<open>ModelState\<close>: the tag \<^verbatim>\<open>type\<close> with the payload of the tagged union
  (\<^verbatim>\<open>highlightIndex\<close>, \<^verbatim>\<open>focusedIndex\<close>). An object spread such as
  \<^verbatim>\<open>{...model, type: "focused__closed"}\<close> leaves a stale \<^verbatim>\<open>highlightIndex\<close> property on the
  JavaScript object; no code path reads it under another tag, so the payload lives in the tag.
\<close>

datatype model_state =
    Blurred
  | FocusedClosed
  | FocusedOpened
  | FocusedOpenedHighlighted int
  | SelectedItemHighlighted int

datatype msg_type =
    PressedHorizontalArrowKeyT
  | PressedVerticalArrowKeyT
  | PressedBackspaceKeyT
  | PressedEscapeKeyT
  | PressedEnterKeyT
  | PressedKeyT
  | PressedItemT
  | FocusedInputT
  | BlurredInputT
  | InputtedValueT
  | HoveredOverItemT
  | PressedInputT
  | PressedUnselectAllButtonT
  | PressedUnselectButtonT
  | FocusedSelectedItemT
  | BlurredSelectedItemT
  | SetAllItemsT
  | SetSelectedItemsT
  | SetInputValueT
  | SetHighlightIndexT
  | SetModeT

datatype horizontal_key = ArrowLeft | ArrowRight

datatype vertical_key = ArrowUp | ArrowDown

datatype 'a msg =
    PressedHorizontalArrowKey horizontal_key
  | PressedVerticalArrowKey vertical_key
  | PressedBackspaceKey
  | PressedEscapeKey
  | PressedEnterKey
  | PressedKey string
  | PressedItem 'a
  | FocusedInput
  | BlurredInput
  | InputtedValue string
  | HoveredOverItem int
  | PressedInput
  | PressedUnselectAllButton
  | PressedUnselectButton 'a
  | FocusedSelectedItem 'a
  | BlurredSelectedItem 'a
  | SetAllItems "'a list"
  | SetSelectedItems "'a list"
  | SetInputValue string
  | SetHighlightIndex int
  | SetMode select_mode

fun msgType :: "'a msg \<Rightarrow> msg_type" where
  "msgType (PressedHorizontalArrowKey _) = PressedHorizontalArrowKeyT"
| "msgType (PressedVerticalArrowKey _) = PressedVerticalArrowKeyT"
| "msgType PressedBackspaceKey = PressedBackspaceKeyT"
| "msgType PressedEscapeKey = PressedEscapeKeyT"
| "msgType PressedEnterKey = PressedEnterKeyT"
| "msgType (PressedKey _) = PressedKeyT"
| "msgType (PressedItem _) = PressedItemT"
| "msgType FocusedInput = FocusedInputT"
| "msgType BlurredInput = BlurredInputT"
| "msgType (InputtedValue _) = InputtedValueT"
| "msgType (HoveredOverItem _) = HoveredOverItemT"
| "msgType PressedInput = PressedInputT"
| "msgType PressedUnselectAllButton = PressedUnselectAllButtonT"
| "msgType (PressedUnselectButton _) = PressedUnselectButtonT"
| "msgType (FocusedSelectedItem _) = FocusedSelectedItemT"
| "msgType (BlurredSelectedItem _) = BlurredSelectedItemT"
| "msgType (SetAllItems _) = SetAllItemsT"
| "msgType (SetSelectedItems _) = SetSelectedItemsT"
| "msgType (SetInputValue _) = SetInputValueT"
| "msgType (SetHighlightIndex _) = SetHighlightIndexT"
| "msgType (SetMode _) = SetModeT"

datatype 'a effect =
    ScrollItemIntoView 'a
  | FocusSelectedItem 'a
  | FocusInput

record 'a model =
  phase :: model_state
  allItems :: "'a list"
  selectedItems :: "'a list"
  skipOnce :: "msg_type list"
  selectMode :: select_mode
  inputMode :: input_mode

record 'a config =
  toItemId :: "'a \<Rightarrow> item_id"
  toItemInputValue :: "'a \<Rightarrow> string"
  deterministicFilter :: "'a model \<Rightarrow> 'a list"
  isEmptyItem :: "'a \<Rightarrow> bool"
  namespace :: string

definition init :: "'a list \<Rightarrow> select_mode option \<Rightarrow> input_mode option \<Rightarrow> 'a model" where
  "init allItems0 selectMode0 inputMode0 =
     \<lparr> phase = Blurred,
       allItems = allItems0,
       selectedItems = [],
       skipOnce = [],
       selectMode = (case selectMode0 of Some s \<Rightarrow> s | None \<Rightarrow> SingleSelect),
       inputMode = (case inputMode0 of Some i \<Rightarrow> i | None \<Rightarrow> SearchMode '''') \<rparr>"

section \<open>Array helpers\<close>

text \<open>\<^verbatim>\<open>arr[i]\<close>: \<^verbatim>\<open>undefined\<close> (here \<open>None\<close>) when \<open>i\<close> is negative or past the end.\<close>

definition at :: "'a list \<Rightarrow> int \<Rightarrow> 'a option" where
  "at xs i = (if 0 \<le> i \<and> i < int (length xs) then Some (xs ! nat i) else None)"

text \<open>\<^verbatim>\<open>Array.prototype.findIndex\<close>: the first index whose element passes, or \<open>-1\<close>.\<close>

fun findIndex :: "('a \<Rightarrow> bool) \<Rightarrow> 'a list \<Rightarrow> int" where
  "findIndex p [] = - 1"
| "findIndex p (x # xs) =
     (if p x then 0 else (let i = findIndex p xs in if i = - 1 then - 1 else i + 1))"

text \<open>\<^verbatim>\<open>Array.prototype.find\<close>.\<close>

fun findItem :: "('a \<Rightarrow> bool) \<Rightarrow> 'a list \<Rightarrow> 'a option" where
  "findItem p [] = None"
| "findItem p (x # xs) = (if p x then Some x else findItem p xs)"

text \<open>\<^verbatim>\<open>arr.filter((_, index) => index !== i)\<close>.\<close>

fun filterIndexNot :: "int \<Rightarrow> int \<Rightarrow> 'a list \<Rightarrow> 'a list" where
  "filterIndexNot i k [] = []"
| "filterIndexNot i k (x # xs) =
     (if k \<noteq> i then x # filterIndexNot i (k + 1) xs else filterIndexNot i (k + 1) xs)"

text \<open>
  \<^verbatim>\<open>removeFirst\<close> and \<^verbatim>\<open>circularIndex\<close> are imported from \<^verbatim>\<open>./utils\<close>; their text
  is the one of the example variants of the same repository
  (\<^verbatim>\<open>example/react/src/dev-headless-autocomplete.ts\<close>).
\<close>

definition removeFirst :: "('a \<Rightarrow> bool) \<Rightarrow> 'a list \<Rightarrow> 'a list" where
  "removeFirst predicate arr =
     (let index = findIndex predicate arr
      in if index = - 1 then arr
         else take (nat index) arr @ drop (nat (index + 1)) arr)"

text \<open>
  JavaScript \<^verbatim>\<open>+\<close> on integer-valued numbers. The sum of two doubles is the exact sum rounded
  to the nearest double, ties to the even mantissa. Every integer up to \<open>2^53\<close> in magnitude
  is a double; a larger one keeps its 53 leading bits. Sums that overflow to \<^verbatim>\<open>Infinity\<close>
  (magnitudes near \<open>2^1024\<close>) are outside the model.
\<close>

function bitLength :: "int \<Rightarrow> nat" where
  "bitLength n = (if n \<le> 0 then 0 else Suc (bitLength (n div 2)))"
  by pat_completeness auto
termination
  by (relation "measure nat") auto

declare bitLength.simps [simp del]

definition roundToDouble :: "int \<Rightarrow> int" where
  "roundToDouble x =
     (if \<bar>x\<bar> \<le> 2 ^ 53 then x
      else (let k = bitLength \<bar>x\<bar> - 53;
                q = \<bar>x\<bar> div 2 ^ k;
                r = \<bar>x\<bar> mod 2 ^ k;
                up = (2 ^ k < 2 * r \<or> (2 * r = 2 ^ k \<and> odd q))
            in sgn x * (if up then q + 1 else q) * 2 ^ k))"

definition jsAdd :: "int \<Rightarrow> int \<Rightarrow> int" where
  "jsAdd a b = roundToDouble (a + b)"

text \<open>
  JavaScript \<^verbatim>\<open>%\<close> on integers: the remainder takes the sign of the dividend, and is exact
  on doubles.
\<close>

definition jsRem :: "int \<Rightarrow> int \<Rightarrow> int" where
  "jsRem a b = sgn a * (\<bar>a\<bar> mod \<bar>b\<bar>)"

definition circularIndex :: "int \<Rightarrow> int \<Rightarrow> int" where
  "circularIndex index len =
     (if len = 0 then 0 else jsRem (jsAdd (jsRem index len) len) len)"

text \<open>
  Modelled from the spec: \<^verbatim>\<open>clampIndex\<close> of \<^verbatim>\<open>./utils\<close>, which is not among the sources.
  The spec says that chip navigation moves \<^verbatim>\<open>focusedIndex\<close> "clamped (not wrapped) to
  [0, len-1]". It says nothing for \<open>len = 0\<close>; no result below depends on that case.
\<close>

definition clampIndex :: "int \<Rightarrow> int \<Rightarrow> int" where
  "clampIndex index len = max 0 (min index (len - 1))"

text \<open>
  Modelled from the spec: \<^verbatim>\<open>isNonEmpty\<close> of \<^verbatim>\<open>./non-empty\<close>, which is not among the sources:
  the type guard of \<^verbatim>\<open>NonEmpty<T>\<close>, an array with at least one element.
\<close>

definition isNonEmpty :: "'a list \<Rightarrow> bool" where
  "isNonEmpty xs = (xs \<noteq> [])"

section \<open>Selectors\<close>

definition isSelected :: "'a model \<Rightarrow> bool" where
  "isSelected model = isNonEmpty (selectedItems model)"

definition isOpened :: "'a model \<Rightarrow> bool" where
  "isOpened model =
     (case phase model of
        FocusedOpened \<Rightarrow> True
      | FocusedOpenedHighlighted _ \<Rightarrow> True
      | _ \<Rightarrow> False)"

definition isClosed :: "'a model \<Rightarrow> bool" where
  "isClosed model = (\<not> isOpened model)"

definition isHighlighted :: "'a model \<Rightarrow> bool" where
  "isHighlighted model =
     (case phase model of FocusedOpenedHighlighted _ \<Rightarrow> True | _ \<Rightarrow> False)"

definition isBlurred :: "'a model \<Rightarrow> bool" where
  "isBlurred model = (phase model = Blurred)"

definition isSelectedItemHighlighted :: "'a model \<Rightarrow> bool" where
  "isSelectedItemHighlighted model =
     (case phase model of SelectedItemHighlighted _ \<Rightarrow> True | _ \<Rightarrow> False)"

definition isFocused :: "'a model \<Rightarrow> bool" where
  "isFocused model = (\<not> isBlurred model)"

definition isMultiSelect :: "select_mode \<Rightarrow> bool" where
  "isMultiSelect mode = (case mode of MultiSelect _ \<Rightarrow> True | SingleSelect \<Rightarrow> False)"

definition toSearchValue :: "'a model \<Rightarrow> string" where
  "toSearchValue model =
     (case inputMode model of SearchMode inputValue \<Rightarrow> inputValue | SelectOnly \<Rightarrow> '''')"

definition emptyItemText :: "'a config \<Rightarrow> 'a model \<Rightarrow> string" where
  "emptyItemText config model =
     (case findItem (isEmptyItem config) (allItems model) of
        Some emptyItem \<Rightarrow> toItemInputValue config emptyItem
      | None \<Rightarrow> '''')"

definition modelToInputValue :: "'a config \<Rightarrow> 'a model \<Rightarrow> string" where
  "modelToInputValue config model =
     (if inputMode model = SelectOnly \<and> isMultiSelect (selectMode model) then ''''
      else if inputMode model = SelectOnly then
        (if isSelected model then toItemInputValue config (hd (selectedItems model))
         else (case phase model of
                 FocusedOpenedHighlighted highlightIndex \<Rightarrow>
                   (case at (allItems model) highlightIndex of
                      None \<Rightarrow> emptyItemText config model
                    | Some item \<Rightarrow> toItemInputValue config item)
               | _ \<Rightarrow> emptyItemText config model))
      else if isSelected model \<and> selectMode model = SingleSelect
        then toItemInputValue config (hd (selectedItems model))
      else '''')"

definition toCurrentInputValue :: "'a config \<Rightarrow> 'a model \<Rightarrow> string" where
  "toCurrentInputValue config model =
     (if inputMode model = SelectOnly then modelToInputValue config model
      else if phase model = Blurred then modelToInputValue config model
      else toSearchValue model)"

definition toSelectedItem :: "'a model \<Rightarrow> 'a option" where
  "toSelectedItem model =
     (if isNonEmpty (selectedItems model) then Some (hd (selectedItems model)) else None)"

definition isItemSelected :: "'a config \<Rightarrow> 'a model \<Rightarrow> 'a \<Rightarrow> bool" where
  "isItemSelected config model item =
     list_ex (\<lambda>x. toItemId config x = toItemId config item) (selectedItems model)"

definition toVisibleItems :: "'a config \<Rightarrow> 'a model \<Rightarrow> 'a list" where
  "toVisibleItems config model =
     (if inputMode model = SelectOnly then allItems model
      else deterministicFilter config model)"


section \<open>The default configuration\<close>

text \<open>
  \<^verbatim>\<open>initConfig\<close> installs \<^verbatim>\<open>simpleFilter\<close>: the items whose text, in lower case, includes the
  current input text in lower case. \<^verbatim>\<open>String.prototype.includes\<close> is a test for a contiguous
  substring; the empty string is included in every string. A \<^verbatim>\<open>deterministicFilter\<close> passed
  to \<^verbatim>\<open>initConfig\<close> is overwritten by \<^verbatim>\<open>simpleFilter\<close>, so the model takes no such argument.
\<close>

definition toLowerCaseChar :: "char \<Rightarrow> char" where
  "toLowerCaseChar c =
     (if 65 \<le> (of_char c :: nat) \<and> (of_char c :: nat) \<le> 90
      then char_of ((of_char c :: nat) + 32) else c)"

definition toLowerCase :: "string \<Rightarrow> string" where
  "toLowerCase s = map toLowerCaseChar s"

fun startsWith :: "string \<Rightarrow> string \<Rightarrow> bool" where
  "startsWith s [] = True"
| "startsWith [] (c # search) = False"
| "startsWith (d # s) (c # search) = (d = c \<and> startsWith s search)"

fun includesStr :: "string \<Rightarrow> string \<Rightarrow> bool" where
  "includesStr [] search = (search = [])"
| "includesStr (d # s) search = (startsWith (d # s) search \<or> includesStr s search)"

definition simpleFilter :: "'a config \<Rightarrow> 'a model \<Rightarrow> 'a list" where
  "simpleFilter config model =
     filter
       (\<lambda>item. includesStr (toLowerCase (toItemInputValue config item))
                (toLowerCase (toCurrentInputValue config model)))
       (allItems model)"

definition initConfig ::
  "('a \<Rightarrow> item_id) \<Rightarrow> ('a \<Rightarrow> string) \<Rightarrow> ('a \<Rightarrow> bool) option \<Rightarrow> string option
   \<Rightarrow> 'a config" where
  "initConfig toItemId0 toItemInputValue0 isEmptyItem0 namespace0 =
     (let configFull =
            \<lparr> toItemId = toItemId0,
              toItemInputValue = toItemInputValue0,
              deterministicFilter = allItems,
              isEmptyItem = (case isEmptyItem0 of Some f \<Rightarrow> f | None \<Rightarrow> (\<lambda>item. False)),
              namespace = (case namespace0 of Some n \<Rightarrow> n | None \<Rightarrow> ''combobox'') \<rparr>
      in configFull\<lparr>deterministicFilter := simpleFilter configFull\<rparr>)"

section \<open>Helpers of the transition function\<close>

definition setInputValue :: "'a model \<Rightarrow> string \<Rightarrow> 'a model" where
  "setInputValue model inputValue =
     (case inputMode model of
        SearchMode _ \<Rightarrow> model\<lparr>inputMode := SearchMode inputValue\<rparr>
      | SelectOnly \<Rightarrow> model)"

definition clearInputValue :: "'a model \<Rightarrow> 'a model" where
  "clearInputValue model = setInputValue model ''''"

definition resetInputValue :: "'a config \<Rightarrow> 'a model \<Rightarrow> 'a model" where
  "resetInputValue config model = setInputValue model (modelToInputValue config model)"

definition addSelected :: "select_mode \<Rightarrow> 'a \<Rightarrow> 'a list \<Rightarrow> 'a list" where
  "addSelected mode item selectedItems0 =
     (if mode = SingleSelect then [item]
      else (let selectedItemsNew = selectedItems0 @ [item]
            in if isNonEmpty selectedItemsNew then selectedItemsNew else [item]))"

definition removeItem :: "'a config \<Rightarrow> 'a \<Rightarrow> 'a list \<Rightarrow> 'a list" where
  "removeItem config item xs =
     filter (\<lambda>x. toItemId config x \<noteq> toItemId config item) xs"

definition toSelectedItemIndex :: "'a config \<Rightarrow> 'a model \<Rightarrow> int option" where
  "toSelectedItemIndex config model =
     (let selectedIndex =
            findIndex
              (\<lambda>item. list_ex (\<lambda>x. toItemId config item = toItemId config x)
                         (selectedItems model))
              (toVisibleItems config model)
      in if selectedIndex = - 1 then None else Some selectedIndex)"

text \<open>
  \<^verbatim>\<open>selectedItemIndex ? selectedItemIndex : 0\<close>: \<^verbatim>\<open>null\<close> and \<open>0\<close> are both falsy.
\<close>

definition indexOrZero :: "int option \<Rightarrow> int" where
  "indexOrZero selectedItemIndex =
     (case selectedItemIndex of None \<Rightarrow> 0 | Some i \<Rightarrow> (if i \<noteq> 0 then i else 0))"

definition toggleSelected :: "'a config \<Rightarrow> 'a model \<Rightarrow> 'a \<Rightarrow> 'a model" where
  "toggleSelected config model item =
     (if \<not> isSelected model then model
      else if selectMode model = SingleSelect then
        (let modelNew = model\<lparr>phase := FocusedClosed,
                              selectedItems :=
                                addSelected (selectMode model) item (selectedItems model)\<rparr>
         in setInputValue modelNew (modelToInputValue config modelNew))
      else if \<not> isItemSelected config model item then
        (let modelNew = model\<lparr>phase := FocusedClosed,
                              selectedItems :=
                                addSelected (selectMode model) item (selectedItems model)\<rparr>
         in setInputValue modelNew (modelToInputValue config modelNew))
      else
        (let removed = removeItem config item (selectedItems model)
         in if isNonEmpty removed
            then setInputValue (model\<lparr>phase := FocusedClosed, selectedItems := removed\<rparr>)
                   (modelToInputValue config model)
            else setInputValue (model\<lparr>phase := FocusedClosed\<rparr>)
                   (modelToInputValue config model)))"

text \<open>
  The guard \<^verbatim>\<open>"inputValue" in model && toSearchValue(model) !== ""\<close> of the source never holds:
  a \<^verbatim>\<open>Model\<close> has no top-level \<^verbatim>\<open>inputValue\<close> property (the text lives in
  \<^verbatim>\<open>inputMode.inputValue\<close>), so the \<^verbatim>\<open>in\<close> test is false for every model.
\<close>

definition hasInputValueProperty :: "'a model \<Rightarrow> bool" where
  "hasInputValueProperty model = False"

definition updateKeyboardNavigationForSelections :: "'a model \<Rightarrow> 'a msg \<Rightarrow> 'a model" where
  "updateKeyboardNavigationForSelections model msg =
     (if \<not> isSelected model then model
      else (case msg of
              PressedHorizontalArrowKey key \<Rightarrow>
                (case selectMode model of
                   SingleSelect \<Rightarrow> model
                 | MultiSelect selectedItemListDirection \<Rightarrow>
                     if hasInputValueProperty model \<and> toSearchValue model \<noteq> '''' then model
                     else if selectedItemListDirection = RightToLeft \<and> key = ArrowLeft
                       then model\<lparr>phase := SelectedItemHighlighted 0\<rparr>
                     else if selectedItemListDirection = LeftToRight \<and> key = ArrowRight
                       then model\<lparr>phase := SelectedItemHighlighted 0\<rparr>
                     else model)
            | _ \<Rightarrow> model))"

definition focusSelectedItem :: "'a config \<Rightarrow> 'a model \<Rightarrow> 'a \<Rightarrow> 'a model" where
  "focusSelectedItem config model item =
     model\<lparr>phase :=
       SelectedItemHighlighted
         (findIndex (\<lambda>x. toItemId config x = toItemId config item) (selectedItems model))\<rparr>"

definition verticalDelta :: "vertical_key \<Rightarrow> int" where
  "verticalDelta key = (if key = ArrowDown then 1 else - 1)"

section \<open>The transition table: \<^verbatim>\<open>updateModel\<close>\<close>

text \<open>
  \<^verbatim>\<open>updateModel\<close> is a switch on the phase whose branches switch on the event. Each branch
  of the outer switch is one definition below, in the order of the source; the arguments
  \<open>highlightIndex\<close> and \<open>focusedIndex\<close> are the payload of the phase. The code repeated in
  several branches of the source (\<^verbatim>\<open>pressed-unselect-button\<close>, \<^verbatim>\<open>focused-selected-item\<close>,
  \<^verbatim>\<open>pressed-vertical-arrow-key\<close> in the two closed phases) is written once.
\<close>

definition unselectButton :: "'a config \<Rightarrow> 'a model \<Rightarrow> 'a \<Rightarrow> model_state \<Rightarrow> 'a model" where
  "unselectButton config model item emptyPhase =
     (let removed = removeItem config item (selectedItems model)
      in if isNonEmpty removed then model\<lparr>selectedItems := removed\<rparr>
         else model\<lparr>phase := emptyPhase\<rparr>)"

definition closedVerticalArrowKey :: "'a config \<Rightarrow> 'a model \<Rightarrow> 'a model" where
  "closedVerticalArrowKey config model =
     (if selectMode model = SingleSelect
      then resetInputValue config (model\<lparr>phase := FocusedOpened\<rparr>)
      else (let selectedItemIndex = toSelectedItemIndex config model
            in resetInputValue config
                 (model\<lparr>phase := FocusedOpenedHighlighted (indexOrZero selectedItemIndex)\<rparr>)))"

definition updateBlurred :: "'a config \<Rightarrow> 'a model \<Rightarrow> 'a msg \<Rightarrow> 'a model" where
  "updateBlurred config model msg =
     (case msg of
        FocusedInput \<Rightarrow> resetInputValue config (model\<lparr>phase := FocusedOpened\<rparr>)
      | PressedUnselectAllButton \<Rightarrow> model\<lparr>phase := Blurred\<rparr>
      | PressedUnselectButton item \<Rightarrow> unselectButton config model item Blurred
      | FocusedSelectedItem item \<Rightarrow> focusSelectedItem config model item
      | _ \<Rightarrow> model)"

definition updateFocusedClosed :: "'a config \<Rightarrow> 'a model \<Rightarrow> 'a msg \<Rightarrow> 'a model" where
  "updateFocusedClosed config model msg =
     (case msg of
        PressedInput \<Rightarrow> model\<lparr>phase := FocusedOpened\<rparr>
      | BlurredInput \<Rightarrow> model\<lparr>phase := Blurred\<rparr>
      | InputtedValue inputValue \<Rightarrow>
          if inputMode model = SelectOnly
          then resetInputValue config (model\<lparr>phase := FocusedOpened\<rparr>)
          else if inputValue = '''' \<and> selectMode model = SingleSelect
          then setInputValue (model\<lparr>phase := FocusedOpened\<rparr>) inputValue
          else setInputValue (model\<lparr>phase := FocusedOpened\<rparr>) inputValue
      | PressedEnterKey \<Rightarrow> resetInputValue config (model\<lparr>phase := FocusedOpened\<rparr>)
      | PressedVerticalArrowKey key \<Rightarrow> closedVerticalArrowKey config model
      | PressedHorizontalArrowKey key \<Rightarrow> updateKeyboardNavigationForSelections model msg
      | PressedUnselectButton item \<Rightarrow> unselectButton config model item FocusedClosed
      | FocusedSelectedItem item \<Rightarrow> focusSelectedItem config model item
      | PressedBackspaceKey \<Rightarrow>
          if inputMode model = SelectOnly \<and> selectMode model = SingleSelect
          then model\<lparr>phase := FocusedOpened, selectedItems := []\<rparr>
          else if inputMode model = SearchMode ''''
          then (let removed = drop 1 (selectedItems model)
                in if isNonEmpty removed then model\<lparr>selectedItems := removed\<rparr>
                   else model\<lparr>phase := FocusedOpened\<rparr>)
          else model
      | PressedUnselectAllButton \<Rightarrow> model\<lparr>phase := FocusedClosed\<rparr>
      | _ \<Rightarrow> model)"

definition updateFocusedOpened :: "'a config \<Rightarrow> 'a model \<Rightarrow> 'a msg \<Rightarrow> 'a model" where
  "updateFocusedOpened config model msg =
     (case msg of
        HoveredOverItem index \<Rightarrow> model\<lparr>phase := FocusedOpenedHighlighted index\<rparr>
      | BlurredInput \<Rightarrow> model\<lparr>phase := Blurred, selectedItems := selectedItems model\<rparr>
      | PressedInput \<Rightarrow> model\<lparr>phase := FocusedClosed\<rparr>
      | PressedItem pressedItem \<Rightarrow>
          if isEmptyItem config pressedItem then model\<lparr>phase := FocusedClosed\<rparr>
          else toggleSelected config model pressedItem
      | InputtedValue inputValue \<Rightarrow>
          if inputMode model = SelectOnly
          then resetInputValue config (model\<lparr>phase := FocusedOpened\<rparr>)
          else if inputValue = '''' \<and> selectMode model = SingleSelect
          then clearInputValue (model\<lparr>selectedItems := [], phase := FocusedOpened\<rparr>)
          else setInputValue model inputValue
      | PressedEnterKey \<Rightarrow> resetInputValue config (model\<lparr>phase := FocusedClosed\<rparr>)
      | PressedVerticalArrowKey key \<Rightarrow>
          (let visible = toVisibleItems config model;
               selectedIndex =
                 findIndex
                   (\<lambda>item. list_ex (\<lambda>x. toItemId config item = toItemId config x)
                              (selectedItems model))
                   visible
           in if selectedIndex = - 1 then model\<lparr>phase := FocusedOpenedHighlighted 0\<rparr>
              else model\<lparr>phase :=
                     FocusedOpenedHighlighted
                       (circularIndex (jsAdd selectedIndex (verticalDelta key))
                          (int (length visible)))\<rparr>)
      | PressedEscapeKey \<Rightarrow> model\<lparr>phase := FocusedClosed\<rparr>
      | PressedHorizontalArrowKey key \<Rightarrow> updateKeyboardNavigationForSelections model msg
      | PressedUnselectButton item \<Rightarrow> unselectButton config model item FocusedOpened
      | PressedBackspaceKey \<Rightarrow>
          if inputMode model = SelectOnly \<and> selectMode model = SingleSelect
          then model\<lparr>selectedItems := []\<rparr>
          else if toSearchValue model = ''''
          then model\<lparr>selectedItems := drop 1 (selectedItems model)\<rparr>
          else model
      | PressedUnselectAllButton \<Rightarrow> model\<lparr>phase := FocusedOpened\<rparr>
      | _ \<Rightarrow> model)"

text \<open>
  Pressing an item, or pressing enter on the highlighted item, in the highlighted phase. The
  two branches of the source differ in how the input text is rewritten: \<^verbatim>\<open>pressed-item\<close>
  resets it on adding and leaves it alone on removing, \<^verbatim>\<open>pressed-enter-key\<close> clears it
  except in single-select mode.
\<close>

definition highlightedPressedItem :: "'a config \<Rightarrow> 'a model \<Rightarrow> 'a \<Rightarrow> 'a model" where
  "highlightedPressedItem config model pressedItem =
     (if isEmptyItem config pressedItem then model\<lparr>phase := FocusedClosed\<rparr>
      else if selectMode model = SingleSelect then
        resetInputValue config
          (model\<lparr>phase := FocusedClosed,
                 selectedItems :=
                   addSelected (selectMode model) pressedItem (selectedItems model)\<rparr>)
      else if \<not> isItemSelected config model pressedItem then
        resetInputValue config
          (model\<lparr>phase := FocusedClosed,
                 selectedItems :=
                   addSelected (selectMode model) pressedItem (selectedItems model)\<rparr>)
      else (let removed = removeItem config pressedItem (selectedItems model)
            in if isNonEmpty removed
               then model\<lparr>phase := FocusedClosed, selectedItems := removed\<rparr>
               else model\<lparr>phase := FocusedClosed\<rparr>))"

definition highlightedPressedEnterKey :: "'a config \<Rightarrow> 'a model \<Rightarrow> int \<Rightarrow> 'a model" where
  "highlightedPressedEnterKey config model highlightIndex =
     (case at (toVisibleItems config model) highlightIndex of
        None \<Rightarrow> model\<lparr>phase := FocusedClosed\<rparr>
      | Some enteredItem \<Rightarrow>
          if isEmptyItem config enteredItem then model\<lparr>phase := FocusedClosed\<rparr>
          else if selectMode model = SingleSelect then
            resetInputValue config
              (model\<lparr>selectedItems :=
                       addSelected (selectMode model) enteredItem (selectedItems model),
                     phase := FocusedClosed\<rparr>)
          else if \<not> isItemSelected config model enteredItem then
            clearInputValue
              (model\<lparr>selectedItems :=
                       addSelected (selectMode model) enteredItem (selectedItems model),
                     phase := FocusedClosed\<rparr>)
          else (let removed = removeItem config enteredItem (selectedItems model)
                in if isNonEmpty removed
                   then clearInputValue
                          (model\<lparr>selectedItems := removed, phase := FocusedClosed\<rparr>)
                   else clearInputValue (model\<lparr>phase := FocusedClosed\<rparr>)))"

definition updateFocusedOpenedHighlighted ::
  "'a config \<Rightarrow> 'a model \<Rightarrow> int \<Rightarrow> 'a msg \<Rightarrow> 'a model" where
  "updateFocusedOpenedHighlighted config model highlightIndex msg =
     (case msg of
        HoveredOverItem index \<Rightarrow> model\<lparr>phase := FocusedOpenedHighlighted index\<rparr>
      | BlurredInput \<Rightarrow> model\<lparr>phase := Blurred\<rparr>
      | PressedItem pressedItem \<Rightarrow> highlightedPressedItem config model pressedItem
      | InputtedValue inputValue \<Rightarrow>
          if inputMode model = SelectOnly
          then resetInputValue config (model\<lparr>phase := FocusedOpened\<rparr>)
          else if inputValue = '''' \<and> selectMode model = SingleSelect
          then clearInputValue (model\<lparr>selectedItems := [], phase := FocusedOpened\<rparr>)
          else setInputValue model inputValue
      | PressedVerticalArrowKey key \<Rightarrow>
          (let visible = toVisibleItems config model
           in model\<lparr>phase :=
                FocusedOpenedHighlighted
                  (circularIndex (jsAdd highlightIndex (verticalDelta key))
                     (int (length visible)))\<rparr>)
      | PressedHorizontalArrowKey key \<Rightarrow> updateKeyboardNavigationForSelections model msg
      | PressedEnterKey \<Rightarrow> highlightedPressedEnterKey config model highlightIndex
      | PressedEscapeKey \<Rightarrow> model\<lparr>phase := FocusedClosed\<rparr>
      | PressedUnselectButton item \<Rightarrow>
          unselectButton config model item (FocusedOpenedHighlighted highlightIndex)
      | FocusedSelectedItem item \<Rightarrow> focusSelectedItem config model item
      | PressedBackspaceKey \<Rightarrow>
          if toSearchValue model = ''''
          then (let removed = drop 1 (selectedItems model)
                in if isNonEmpty removed then model\<lparr>selectedItems := removed\<rparr>
                   else model\<lparr>phase := FocusedOpened\<rparr>)
          else model
      | PressedUnselectAllButton \<Rightarrow> model\<lparr>phase := FocusedOpened\<rparr>
      | _ \<Rightarrow> model)"

definition chipHorizontalArrowKey :: "'a model \<Rightarrow> int \<Rightarrow> horizontal_key \<Rightarrow> 'a model" where
  "chipHorizontalArrowKey model focusedIndex key =
     (case selectMode model of
        SingleSelect \<Rightarrow> clearInputValue (model\<lparr>phase := FocusedClosed\<rparr>)
      | MultiSelect selectedItemListDirection \<Rightarrow>
          if focusedIndex = 0 \<and> selectedItemListDirection = RightToLeft \<and> key = ArrowRight
          then clearInputValue (model\<lparr>phase := FocusedClosed\<rparr>)
          else if focusedIndex = 0 \<and> selectedItemListDirection = LeftToRight \<and> key = ArrowLeft
          then clearInputValue (model\<lparr>phase := FocusedClosed\<rparr>)
          else (let delta =
                      (if selectedItemListDirection = RightToLeft
                       then (if key = ArrowRight then - 1 else 1)
                       else if selectedItemListDirection = LeftToRight
                       then (if key = ArrowLeft then - 1 else 1)
                       else 0);
                    selectedItemHighlightIndexNew =
                      clampIndex (jsAdd focusedIndex delta)
                        (int (length (selectedItems model)))
                in model\<lparr>phase := SelectedItemHighlighted selectedItemHighlightIndexNew\<rparr>))"

definition updateSelectedItemHighlighted ::
  "'a config \<Rightarrow> 'a model \<Rightarrow> int \<Rightarrow> 'a msg \<Rightarrow> 'a model" where
  "updateSelectedItemHighlighted config model focusedIndex msg =
     (case msg of
        PressedHorizontalArrowKey key \<Rightarrow> chipHorizontalArrowKey model focusedIndex key
      | PressedVerticalArrowKey key \<Rightarrow> closedVerticalArrowKey config model
      | InputtedValue inputValue \<Rightarrow>
          if inputMode model = SelectOnly
          then setInputValue (model\<lparr>phase := FocusedOpened\<rparr>) (modelToInputValue config model)
          else if toSearchValue model = ''''
          then setInputValue (model\<lparr>selectedItems := [], phase := FocusedOpened\<rparr>) inputValue
          else setInputValue (model\<lparr>phase := FocusedOpened\<rparr>) inputValue
      | PressedKey key \<Rightarrow> clearInputValue (model\<lparr>phase := FocusedClosed\<rparr>)
      | PressedEnterKey \<Rightarrow> clearInputValue (model\<lparr>phase := FocusedClosed\<rparr>)
      | PressedEscapeKey \<Rightarrow> clearInputValue (model\<lparr>phase := FocusedClosed\<rparr>)
      | PressedBackspaceKey \<Rightarrow>
          (let removedHighlightedIndex = filterIndexNot focusedIndex 0 (selectedItems model)
           in clearInputValue
                (model\<lparr>selectedItems := removedHighlightedIndex, phase := FocusedClosed\<rparr>))
      | PressedUnselectButton item \<Rightarrow>
          (let removed = removeItem config item (selectedItems model)
           in if isNonEmpty removed
              then (let selectedItemHighlightIndex =
                          clampIndex focusedIndex (int (length removed))
                    in model\<lparr>selectedItems := removed,
                             phase := SelectedItemHighlighted selectedItemHighlightIndex\<rparr>)
              else clearInputValue (model\<lparr>phase := FocusedClosed\<rparr>))
      | FocusedSelectedItem item \<Rightarrow> focusSelectedItem config model item
      | BlurredSelectedItem item \<Rightarrow> model
      | FocusedInput \<Rightarrow> clearInputValue (model\<lparr>phase := FocusedOpened\<rparr>)
      | PressedUnselectAllButton \<Rightarrow> clearInputValue (model\<lparr>phase := FocusedOpened\<rparr>)
      | _ \<Rightarrow> model)"

definition updateModel :: "'a config \<Rightarrow> 'a model \<Rightarrow> 'a msg \<Rightarrow> 'a model" where
  "updateModel config model msg =
     (case phase model of
        Blurred \<Rightarrow> updateBlurred config model msg
      | FocusedClosed \<Rightarrow> updateFocusedClosed config model msg
      | FocusedOpened \<Rightarrow> updateFocusedOpened config model msg
      | FocusedOpenedHighlighted highlightIndex \<Rightarrow>
          updateFocusedOpenedHighlighted config model highlightIndex msg
      | SelectedItemHighlighted focusedIndex \<Rightarrow>
          updateSelectedItemHighlighted config model focusedIndex msg)"

section \<open>The setter overlay: \<^verbatim>\<open>updateSetters\<close>\<close>

definition updateSetters :: "'a msg \<Rightarrow> 'a model \<Rightarrow> 'a model" where
  "updateSetters msg model =
     (case msg of
        SetAllItems allItems0 \<Rightarrow> model\<lparr>allItems := allItems0\<rparr>
      | SetSelectedItems selectedItems0 \<Rightarrow>
          if isSelected model then model\<lparr>selectedItems := selectedItems0\<rparr>
          else model\<lparr>phase := Blurred, selectedItems := selectedItems0\<rparr>
      | SetInputValue inputValue \<Rightarrow>
          (case inputMode model of
             SearchMode _ \<Rightarrow> model\<lparr>inputMode := SearchMode inputValue\<rparr>
           | SelectOnly \<Rightarrow> model)
      | SetHighlightIndex highlightIndex \<Rightarrow>
          if isHighlighted model then model\<lparr>phase := FocusedOpenedHighlighted highlightIndex\<rparr>
          else model
      | SetMode mode \<Rightarrow> model\<lparr>selectMode := mode\<rparr>
      | _ \<Rightarrow> model)"

section \<open>\<^verbatim>\<open>update\<close>: suppression, transition, effects, edge cases\<close>

definition hasScrollEffect :: "'a effect list \<Rightarrow> bool" where
  "hasScrollEffect effects =
     list_ex (\<lambda>effect. case effect of ScrollItemIntoView _ \<Rightarrow> True | _ \<Rightarrow> False) effects"

text \<open>The effects pushed by \<^verbatim>\<open>update\<close>, in the order of the source.\<close>

definition addEffects :: "'a config \<Rightarrow> 'a model \<Rightarrow> 'a msg \<Rightarrow> 'a model \<Rightarrow> 'a effect list" where
  "addEffects config model msg outputModel =
     (if isClosed model \<and> isOpened outputModel \<and> isSelected outputModel
      then [ScrollItemIntoView (hd (selectedItems outputModel))] else [])
     @ (if msgType msg = PressedInputT then [FocusInput] else [])
     @ (case phase outputModel of
          FocusedOpenedHighlighted highlightIndex \<Rightarrow>
            if msgType msg = PressedVerticalArrowKeyT
            then (case at (toVisibleItems config outputModel) highlightIndex of
                    Some highlightedItem \<Rightarrow> [ScrollItemIntoView highlightedItem]
                  | None \<Rightarrow> [])
            else []
        | _ \<Rightarrow> [])
     @ (case phase outputModel of
          SelectedItemHighlighted focusedIndex \<Rightarrow>
            (case at (selectedItems outputModel) focusedIndex of
               Some selectedHighlightedItem \<Rightarrow> [FocusSelectedItem selectedHighlightedItem]
             | None \<Rightarrow> [])
        | _ \<Rightarrow> [])
     @ (if isSelectedItemHighlighted model \<and> \<not> isSelectedItemHighlighted outputModel
        then [FocusInput] else [])
     @ (if msgType msg = PressedUnselectAllButtonT then [FocusInput] else [])"

text \<open>The four edge-case rules at the end of \<^verbatim>\<open>update\<close>, each an assignment to \<^verbatim>\<open>skipOnce\<close>.\<close>

definition scheduleSkips :: "'a model \<Rightarrow> 'a effect list \<Rightarrow> 'a model \<Rightarrow> 'a model" where
  "scheduleSkips model effects outputModel =
     (let m1 = (if isClosed model \<and> isOpened outputModel \<and> hasScrollEffect effects
                then outputModel\<lparr>skipOnce := [HoveredOverItemT, HoveredOverItemT]\<rparr>
                else outputModel);
          m2 = (if isClosed model \<and> isOpened m1
                then m1\<lparr>skipOnce := skipOnce m1 @ [HoveredOverItemT]\<rparr>
                else m1);
          m3 = (if hasScrollEffect effects
                then m2\<lparr>skipOnce := [HoveredOverItemT]\<rparr>
                else m2);
          m4 = (if (isBlurred model \<or> isSelectedItemHighlighted model) \<and> isFocused m3
                then m3\<lparr>skipOnce := skipOnce m3 @ [PressedInputT]\<rparr>
                else m3)
      in m4)"

text \<open>The part of \<^verbatim>\<open>update\<close> after the suppression step.\<close>

definition updateNotSkipped :: "'a config \<Rightarrow> 'a model \<Rightarrow> 'a msg \<Rightarrow> 'a model \<times> 'a effect list" where
  "updateNotSkipped config model msg =
     (let outputModel = updateSetters msg (updateModel config model msg);
          effects = addEffects config model msg outputModel
      in (scheduleSkips model effects outputModel, effects))"

definition update :: "'a config \<Rightarrow> 'a model \<Rightarrow> 'a msg \<Rightarrow> 'a model \<times> 'a effect list" where
  "update config model msg =
     (if msgType msg \<in> set (skipOnce model)
      then (model\<lparr>skipOnce := removeFirst (\<lambda>m. m = msgType msg) (skipOnce model)\<rparr>, [])
      else updateNotSkipped config model msg)"

section \<open>Sequences of events\<close>

text \<open>
  The models a caller can hold: \<^verbatim>\<open>init\<close>, then any sequence of \<^verbatim>\<open>update\<close> calls whose
  events pass \<open>allowed\<close>, a condition on the event and the model it is dispatched on.
  \<open>reachable\<close> allows every event.
\<close>

inductive reachableBy ::
  "('a model \<Rightarrow> 'a msg \<Rightarrow> bool) \<Rightarrow> 'a config \<Rightarrow> 'a model \<Rightarrow> bool"
  for allowed :: "'a model \<Rightarrow> 'a msg \<Rightarrow> bool" and config :: "'a config" where
  reachableBy_init: "reachableBy allowed config (init allItems0 selectMode0 inputMode0)"
| reachableBy_update:
    "reachableBy allowed config model \<Longrightarrow> allowed model msg \<Longrightarrow>
     reachableBy allowed config (fst (update config model msg))"

definition anyEvent :: "'a model \<Rightarrow> 'a msg \<Rightarrow> bool" where
  "anyEvent model msg = True"

definition reachable :: "'a config \<Rightarrow> 'a model \<Rightarrow> bool" where
  "reachable config model = reachableBy anyEvent config model"

text \<open>Dispatching a list of events in order, and one event \<open>k\<close> times.\<close>

fun dispatchAll :: "'a config \<Rightarrow> 'a model \<Rightarrow> 'a msg list \<Rightarrow> 'a model" where
  "dispatchAll config model [] = model"
| "dispatchAll config model (msg # msgs) =
     dispatchAll config (fst (update config model msg)) msgs"


section \<open>The events each phase handles\<close>

text \<open>
  The case labels of the five inner switches of \<^verbatim>\<open>updateModel\<close>; every other event falls
  to \<^verbatim>\<open>default: return model\<close>. In phase \<^verbatim>\<open>selected-item-highlighted\<close> the label
  \<^verbatim>\<open>blurred-selected-item\<close> is left out: its branch is \<^verbatim>\<open>return model\<close> too.
\<close>

fun handlesEvent :: "model_state \<Rightarrow> msg_type \<Rightarrow> bool" where
  "handlesEvent Blurred t =
     (t \<in> set [FocusedInputT, PressedUnselectAllButtonT, PressedUnselectButtonT,
               FocusedSelectedItemT])"
| "handlesEvent FocusedClosed t =
     (t \<in> set [PressedInputT, BlurredInputT, InputtedValueT, PressedEnterKeyT,
               PressedVerticalArrowKeyT, PressedHorizontalArrowKeyT, PressedUnselectButtonT,
               FocusedSelectedItemT, PressedBackspaceKeyT, PressedUnselectAllButtonT])"
| "handlesEvent FocusedOpened t =
     (t \<in> set [HoveredOverItemT, BlurredInputT, PressedInputT, PressedItemT, InputtedValueT,
               PressedEnterKeyT, PressedVerticalArrowKeyT, PressedEscapeKeyT,
               PressedHorizontalArrowKeyT, PressedUnselectButtonT, PressedBackspaceKeyT,
               PressedUnselectAllButtonT])"
| "handlesEvent (FocusedOpenedHighlighted highlightIndex) t =
     (t \<in> set [HoveredOverItemT, BlurredInputT, PressedItemT, InputtedValueT,
               PressedVerticalArrowKeyT, PressedHorizontalArrowKeyT, PressedEnterKeyT,
               PressedEscapeKeyT, PressedUnselectButtonT, FocusedSelectedItemT,
               PressedBackspaceKeyT, PressedUnselectAllButtonT])"
| "handlesEvent (SelectedItemHighlighted focusedIndex) t =
     (t \<in> set [PressedHorizontalArrowKeyT, PressedVerticalArrowKeyT, InputtedValueT,
               PressedKeyT, PressedEnterKeyT, PressedEscapeKeyT, PressedBackspaceKeyT,
               PressedUnselectButtonT, FocusedSelectedItemT, FocusedInputT,
               PressedUnselectAllButtonT])"

definition isSetter :: "msg_type \<Rightarrow> bool" where
  "isSetter t =
     (t \<in> set [SetAllItemsT, SetSelectedItemsT, SetInputValueT, SetHighlightIndexT, SetModeT])"

section \<open>An example configuration\<close>

text \<open>
  The items of the README, \<^verbatim>\<open>{ id: number; label: string }\<close>, with a filter that shows every
  item.
\<close>

datatype fruit = Fruit (fruitId: int) (fruitLabel: string)

definition exampleConfig :: "fruit config" where
  "exampleConfig =
     \<lparr> toItemId = (\<lambda>item. NumId (fruitId item)),
       toItemInputValue = fruitLabel,
       deterministicFilter = allItems,
       isEmptyItem = (\<lambda>item. False),
       namespace = ''combobox'' \<rparr>"

text \<open>The same items under the default configuration, whose filter reads the input text.\<close>

definition searchConfig :: "fruit config" where
  "searchConfig = initConfig (\<lambda>item. NumId (fruitId item)) fruitLabel None None"

definition pear :: fruit where
  "pear = Fruit 0 ''pear''"

definition apple :: fruit where
  "apple = Fruit 1 ''apple''"

definition banana :: fruit where
  "banana = Fruit 2 ''banana''"

section \<open>Conditions on the events of a sequence\<close>

text \<open>
  The setters take any value. \<open>keepsCardinality\<close> holds of the events that respect the
  cardinality of single-select mode: a \<^verbatim>\<open>set-selected-items\<close> dispatched in single-select mode
  carries at most one item, and a \<^verbatim>\<open>set-mode\<close> switches to single-select only when at most
  one item is selected.
\<close>

definition keepsCardinality :: "'a model \<Rightarrow> 'a msg \<Rightarrow> bool" where
  "keepsCardinality model msg =
     (case msg of
        SetSelectedItems selectedItems0 \<Rightarrow>
          selectMode model \<noteq> SingleSelect \<or> length selectedItems0 \<le> 1
      | SetMode mode \<Rightarrow> mode \<noteq> SingleSelect \<or> length (selectedItems model) \<le> 1
      | _ \<Rightarrow> True)"

definition cardinalityOk :: "'a model \<Rightarrow> bool" where
  "cardinalityOk model =
     (selectMode model \<noteq> SingleSelect \<or> length (selectedItems model) \<le> 1)"

text \<open>
  \<open>keepsChipFocus\<close> holds of the events that respect the focused chip: a
  \<^verbatim>\<open>focused-selected-item\<close> names an item whose id is among the selected items, and a
  \<^verbatim>\<open>set-selected-items\<close> dispatched while a chip has the focus keeps the list longer than
  \<^verbatim>\<open>focusedIndex\<close>.
\<close>

definition keepsChipFocus :: "'a config \<Rightarrow> 'a model \<Rightarrow> 'a msg \<Rightarrow> bool" where
  "keepsChipFocus config model msg =
     (case msg of
        FocusedSelectedItem item \<Rightarrow> isItemSelected config model item
      | SetSelectedItems selectedItems0 \<Rightarrow>
          (case phase model of
             SelectedItemHighlighted focusedIndex \<Rightarrow> focusedIndex < int (length selectedItems0)
           | _ \<Rightarrow> True)
      | _ \<Rightarrow> True)"

definition chipFocusValid :: "'a model \<Rightarrow> bool" where
  "chipFocusValid model =
     (case phase model of
        SelectedItemHighlighted focusedIndex \<Rightarrow>
          0 \<le> focusedIndex \<and> focusedIndex < int (length (selectedItems model))
      | _ \<Rightarrow> True)"

section \<open>What the helpers leave alone\<close>

lemma setInputValue_frame [simp]:
  "phase (setInputValue m v) = phase m"
  "allItems (setInputValue m v) = allItems m"
  "selectedItems (setInputValue m v) = selectedItems m"
  "skipOnce (setInputValue m v) = skipOnce m"
  "selectMode (setInputValue m v) = selectMode m"
  by (simp_all add: setInputValue_def split: input_mode.splits)

lemma clearInputValue_frame [simp]:
  "phase (clearInputValue m) = phase m"
  "allItems (clearInputValue m) = allItems m"
  "selectedItems (clearInputValue m) = selectedItems m"
  "skipOnce (clearInputValue m) = skipOnce m"
  "selectMode (clearInputValue m) = selectMode m"
  by (simp_all add: clearInputValue_def)

lemma resetInputValue_frame [simp]:
  "phase (resetInputValue c m) = phase m"
  "allItems (resetInputValue c m) = allItems m"
  "selectedItems (resetInputValue c m) = selectedItems m"
  "skipOnce (resetInputValue c m) = skipOnce m"
  "selectMode (resetInputValue c m) = selectMode m"
  by (simp_all add: resetInputValue_def)

lemma scheduleSkips_frame [simp]:
  "phase (scheduleSkips m e out) = phase out"
  "allItems (scheduleSkips m e out) = allItems out"
  "selectedItems (scheduleSkips m e out) = selectedItems out"
  "selectMode (scheduleSkips m e out) = selectMode out"
  "inputMode (scheduleSkips m e out) = inputMode out"
  by (simp_all add: scheduleSkips_def Let_def)

lemma scheduleSkips_skipOnce_subset:
  "set (skipOnce (scheduleSkips m e out))
     \<subseteq> set (skipOnce out) \<union> {HoveredOverItemT, PressedInputT}"
  by (auto simp add: scheduleSkips_def Let_def)

lemma scheduleSkips_scroll:
  "hasScrollEffect e \<Longrightarrow>
   skipOnce (scheduleSkips m e out) = [HoveredOverItemT] \<or>
   skipOnce (scheduleSkips m e out) = [HoveredOverItemT, PressedInputT]"
  by (simp add: scheduleSkips_def Let_def)

lemmas branch_defs =
  unselectButton_def closedVerticalArrowKey_def focusSelectedItem_def toggleSelected_def
  updateKeyboardNavigationForSelections_def highlightedPressedItem_def
  highlightedPressedEnterKey_def chipHorizontalArrowKey_def

lemmas phase_defs =
  updateBlurred_def updateFocusedClosed_def updateFocusedOpened_def
  updateFocusedOpenedHighlighted_def updateSelectedItemHighlighted_def

lemma allItems_branches [simp]:
  "allItems (unselectButton c m i p) = allItems m"
  "allItems (closedVerticalArrowKey c m) = allItems m"
  "allItems (focusSelectedItem c m i) = allItems m"
  "allItems (toggleSelected c m i) = allItems m"
  "allItems (updateKeyboardNavigationForSelections m msg) = allItems m"
  "allItems (highlightedPressedItem c m i) = allItems m"
  "allItems (highlightedPressedEnterKey c m h) = allItems m"
  "allItems (chipHorizontalArrowKey m f k) = allItems m"
  by (simp_all add: branch_defs Let_def split: msg.splits select_mode.splits option.splits)

lemma allItems_updateModel: "allItems (updateModel c m msg) = allItems m"
  unfolding updateModel_def
  by (cases "phase m"; cases msg; simp add: phase_defs Let_def)

lemma allItems_updateSetters:
  "msgType msg \<noteq> SetAllItemsT \<Longrightarrow> allItems (updateSetters msg m) = allItems m"
  by (cases msg; simp add: updateSetters_def split: input_mode.splits)

section \<open>The candidate pool\<close>

text \<open>
  Claim C10. For every model and every event whose type is not \<^verbatim>\<open>set-all-items\<close>, the model
  returned by \<^verbatim>\<open>update\<close> has the \<^verbatim>\<open>allItems\<close> of the input model: only the
  \<^verbatim>\<open>set-all-items\<close> setter changes the candidate pool.
\<close>

theorem update_preserves_allItems:
  "msgType msg \<noteq> SetAllItemsT \<Longrightarrow>
   allItems (fst (update config model msg)) = allItems model"
  by (simp add: update_def updateNotSkipped_def Let_def allItems_updateModel
        allItems_updateSetters)

theorem update_preserves_allItems_witness:
  "msgType (FocusedInput :: fruit msg) \<noteq> SetAllItemsT \<and>
   allItems (fst (update exampleConfig (init [pear, apple, banana] None None) FocusedInput))
     = [pear, apple, banana]"
  using update_preserves_allItems [of "FocusedInput :: fruit msg" exampleConfig
          "init [pear, apple, banana] None None"]
  by (simp add: init_def)

section \<open>Scheduling of the hover suppression\<close>

text \<open>
  Claim C6. Whenever the effect list returned by \<^verbatim>\<open>update\<close> holds a
  \<^verbatim>\<open>scroll-item-into-view\<close> effect, the \<^verbatim>\<open>skipOnce\<close> list of the returned model holds exactly
  one \<^verbatim>\<open>hovered-over-item\<close>: the rule for any scroll effect runs after the rule that schedules
  two suppressions when the dropdown opens, and assigns the list anew.
\<close>

theorem scroll_effect_schedules_one_hover_skip:
  "hasScrollEffect (snd (update config model msg)) \<Longrightarrow>
   count_list (skipOnce (fst (update config model msg))) HoveredOverItemT = 1"
proof -
  assume h: "hasScrollEffect (snd (update config model msg))"
  show ?thesis
  proof (cases "msgType msg \<in> set (skipOnce model)")
    case True
    with h show ?thesis by (simp add: update_def hasScrollEffect_def)
  next
    case False
    let ?out = "updateSetters msg (updateModel config model msg)"
    let ?eff = "addEffects config model msg ?out"
    from False h have "hasScrollEffect ?eff"
      by (simp add: update_def updateNotSkipped_def Let_def)
    from scheduleSkips_scroll [OF this, of model ?out] False show ?thesis
      by (auto simp add: update_def updateNotSkipped_def Let_def)
  qed
qed

text \<open>
  The witness opens the dropdown of a focused, closed combobox with a selected item: the
  dropdown just opened and a scroll effect was emitted, so both rules fire.
\<close>

theorem scroll_effect_schedules_one_hover_skip_witness:
  "hasScrollEffect
     (snd (update exampleConfig
             ((init [pear, apple, banana] None None)
                \<lparr>phase := FocusedClosed, selectedItems := [apple]\<rparr>)
             PressedInput)) \<and>
   count_list
     (skipOnce
        (fst (update exampleConfig
                ((init [pear, apple, banana] None None)
                   \<lparr>phase := FocusedClosed, selectedItems := [apple]\<rparr>)
                PressedInput)))
     HoveredOverItemT = 1"
proof -
  have h: "hasScrollEffect
     (snd (update exampleConfig
             ((init [pear, apple, banana] None None)
                \<lparr>phase := FocusedClosed, selectedItems := [apple]\<rparr>)
             PressedInput))"
    by code_simp
  show ?thesis
    using h scroll_effect_schedules_one_hover_skip [OF h] by simp
qed

section \<open>Array helpers, characterised\<close>

lemma findIndex_ge: "- 1 \<le> findIndex p xs"
  by (induction xs) (auto simp add: Let_def)

lemma findIndex_less: "findIndex p xs < int (length xs)"
  by (induction xs) (auto simp add: Let_def)

lemma findIndex_none: "findIndex p xs = - 1 \<longleftrightarrow> (\<forall>x \<in> set xs. \<not> p x)"
proof (induction xs)
  case Nil
  show ?case by simp
next
  case (Cons x xs)
  from findIndex_ge [of p xs] have "findIndex p xs + 1 \<noteq> - 1" by linarith
  with Cons show ?case by (auto simp add: Let_def)
qed



text \<open>\<^verbatim>\<open>removeFirst\<close> on an equality test drops the first occurrence, like \<open>remove1\<close>.\<close>

lemma removeFirst_remove1: "removeFirst (\<lambda>m. m = t) xs = remove1 t xs"
proof (induction xs)
  case Nil
  show ?case by (simp add: removeFirst_def)
next
  case (Cons x xs)
  let ?i = "findIndex (\<lambda>m. m = t) xs"
  show ?case
  proof (cases "x = t")
    case True
    then show ?thesis by (simp add: removeFirst_def)
  next
    case False
    show ?thesis
    proof (cases "?i = - 1")
      case True
      with False Cons show ?thesis by (simp add: removeFirst_def Let_def)
    next
      case ne: False
      with findIndex_ge [of "\<lambda>m. m = t" xs] have ge: "0 \<le> ?i" by linarith
      then have n1: "nat (?i + 1) = Suc (nat ?i)"
        and n2: "nat (2 + ?i) = Suc (Suc (nat ?i))"
        by linarith+
      from ge have nm: "?i + 1 \<noteq> - 1" by linarith
      from False ne nm Cons show ?thesis
        by (simp add: removeFirst_def Let_def n1 n2)
    qed
  qed
qed

lemma remove1_split_first:
  assumes "t \<in> set xs"
  shows "\<exists>ys zs. xs = ys @ t # zs \<and> t \<notin> set ys \<and> remove1 t xs = ys @ zs"
proof -
  from assms obtain ys zs where s: "xs = ys @ t # zs" and n: "t \<notin> set ys"
    by (auto dest: split_list_first)
  then have "remove1 t xs = ys @ zs" by (simp add: remove1_append)
  with s n show ?thesis by blast
qed

section \<open>The suppression step\<close>

text \<open>
  Claim C5. For every model and every event whose type occurs in \<^verbatim>\<open>model.skipOnce\<close>,
  \<^verbatim>\<open>update\<close> returns no effect and the input model with one field changed: \<^verbatim>\<open>skipOnce\<close>
  loses the first occurrence of that event type, and nothing else. The step runs before any
  other logic. An occurrence of the same event type dispatched when none is left in
  \<^verbatim>\<open>skipOnce\<close> goes through the rest of \<^verbatim>\<open>update\<close>, \<open>updateNotSkipped\<close>.
\<close>

theorem update_skipOnce_suppression:
  assumes "msgType msg \<in> set (skipOnce model)"
  shows "snd (update config model msg) = [] \<and>
         fst (update config model msg)
           = model\<lparr>skipOnce := remove1 (msgType msg) (skipOnce model)\<rparr> \<and>
         (\<exists>ys zs. skipOnce model = ys @ msgType msg # zs \<and> msgType msg \<notin> set ys \<and>
                  skipOnce (fst (update config model msg)) = ys @ zs) \<and>
         (msgType msg \<notin> set (skipOnce (fst (update config model msg))) \<longrightarrow>
            update config (fst (update config model msg)) msg
              = updateNotSkipped config (fst (update config model msg)) msg)"
proof -
  from assms have u: "update config model msg
      = (model\<lparr>skipOnce := remove1 (msgType msg) (skipOnce model)\<rparr>, [])"
    by (simp add: update_def removeFirst_remove1)
  from remove1_split_first [OF assms] u show ?thesis
    by (auto simp add: update_def)
qed

text \<open>
  The witness is the model after \<^verbatim>\<open>focused-input\<close>, which has scheduled one
  \<^verbatim>\<open>hovered-over-item\<close>: the hover is swallowed and leaves \<^verbatim>\<open>skipOnce\<close> without it, so
  that the next hover is processed.
\<close>

theorem update_skipOnce_suppression_witness:
  "msgType (HoveredOverItem 1 :: fruit msg)
     \<in> set (skipOnce
              ((init [pear, apple, banana] None None)
                 \<lparr>phase := FocusedOpened, skipOnce := [HoveredOverItemT, PressedInputT]\<rparr>)) \<and>
   snd (update exampleConfig
          ((init [pear, apple, banana] None None)
             \<lparr>phase := FocusedOpened, skipOnce := [HoveredOverItemT, PressedInputT]\<rparr>)
          (HoveredOverItem 1)) = [] \<and>
   fst (update exampleConfig
          ((init [pear, apple, banana] None None)
             \<lparr>phase := FocusedOpened, skipOnce := [HoveredOverItemT, PressedInputT]\<rparr>)
          (HoveredOverItem 1))
   = (init [pear, apple, banana] None None)
       \<lparr>phase := FocusedOpened, skipOnce := [PressedInputT]\<rparr> \<and>
   update exampleConfig
     ((init [pear, apple, banana] None None)
        \<lparr>phase := FocusedOpened, skipOnce := [PressedInputT]\<rparr>)
     (HoveredOverItem 1)
   = updateNotSkipped exampleConfig
       ((init [pear, apple, banana] None None)
          \<lparr>phase := FocusedOpened, skipOnce := [PressedInputT]\<rparr>)
       (HoveredOverItem 1)"
proof -
  let ?m = "(init [pear, apple, banana] None None)
              \<lparr>phase := FocusedOpened, skipOnce := [HoveredOverItemT, PressedInputT]\<rparr>"
  let ?m' = "(init [pear, apple, banana] None None)
               \<lparr>phase := FocusedOpened, skipOnce := [PressedInputT]\<rparr>"
  have h: "msgType (HoveredOverItem 1 :: fruit msg) \<in> set (skipOnce ?m)"
    by simp
  note t = update_skipOnce_suppression [OF h, of exampleConfig]
  from t have a: "snd (update exampleConfig ?m (HoveredOverItem 1)) = []"
    by blast
  from t have "fst (update exampleConfig ?m (HoveredOverItem 1))
      = ?m\<lparr>skipOnce := remove1 (msgType (HoveredOverItem 1 :: fruit msg)) (skipOnce ?m)\<rparr>"
    by blast
  then have b: "fst (update exampleConfig ?m (HoveredOverItem 1)) = ?m'"
    by simp
  have n: "msgType (HoveredOverItem 1 :: fruit msg) \<notin> set (skipOnce ?m')"
    by simp
  from t have "msgType (HoveredOverItem 1 :: fruit msg)
        \<notin> set (skipOnce (fst (update exampleConfig ?m (HoveredOverItem 1)))) \<longrightarrow>
      update exampleConfig (fst (update exampleConfig ?m (HoveredOverItem 1))) (HoveredOverItem 1)
        = updateNotSkipped exampleConfig
            (fst (update exampleConfig ?m (HoveredOverItem 1))) (HoveredOverItem 1)"
    by blast
  with b n have c: "update exampleConfig ?m' (HoveredOverItem 1)
      = updateNotSkipped exampleConfig ?m' (HoveredOverItem 1)"
    by simp
  from h a b c show ?thesis by blast
qed

section \<open>Events a phase does not handle\<close>

lemma updateModel_unhandled:
  "\<not> handlesEvent (phase model) (msgType msg) \<Longrightarrow> updateModel config model msg = model"
  unfolding updateModel_def
  by (cases "phase model"; cases msg; simp add: phase_defs)

lemma updateSetters_not_setter:
  "\<not> isSetter (msgType msg) \<Longrightarrow> updateSetters msg model = model"
  by (cases msg; simp add: updateSetters_def isSetter_def)

lemma updateModel_setter:
  "isSetter (msgType msg) \<Longrightarrow> updateModel config model msg = model"
  unfolding updateModel_def
  by (cases "phase model"; cases msg; simp add: phase_defs isSetter_def)

lemma addEffects_unhandled:
  "\<not> handlesEvent (phase model) (msgType msg) \<Longrightarrow>
   addEffects config model msg model =
     (if msgType msg = PressedInputT then [FocusInput] else [])
     @ (case phase model of
          SelectedItemHighlighted focusedIndex \<Rightarrow>
            (case at (selectedItems model) focusedIndex of
               Some item \<Rightarrow> [FocusSelectedItem item]
             | None \<Rightarrow> [])
        | _ \<Rightarrow> [])"
  by (cases "phase model";
      auto simp add: addEffects_def isClosed_def isSelectedItemHighlighted_def)

lemma hasScrollEffect_unhandled:
  "\<not> handlesEvent (phase model) (msgType msg) \<Longrightarrow>
   \<not> hasScrollEffect (addEffects config model msg model)"
  by (cases "phase model";
      auto simp add: addEffects_unhandled hasScrollEffect_def split: option.splits)

text \<open>
  Claim C4 says that an event the current phase does not handle returns the input model and
  no effect. The code does so only in part. At the claim's own example,
  \<^verbatim>\<open>blurred-selected-item\<close> in phase \<^verbatim>\<open>selected-item-highlighted\<close>, \<^verbatim>\<open>update\<close> requests
  \<^verbatim>\<open>focus-selected-item\<close> and appends \<^verbatim>\<open>pressed-input\<close> to \<^verbatim>\<open>skipOnce\<close>; \<^verbatim>\<open>pressed-input\<close> in
  phase \<^verbatim>\<open>blurred\<close> requests \<^verbatim>\<open>focus-input\<close>; an event whose type is in \<^verbatim>\<open>skipOnce\<close> is
  swallowed and shortens \<^verbatim>\<open>skipOnce\<close>; a setter, which no phase handles, changes the model.
\<close>

theorem unhandled_event_counterexample:
  "update exampleConfig
     ((init [pear, apple, banana] None None)
        \<lparr>phase := SelectedItemHighlighted 0, selectedItems := [apple]\<rparr>)
     (BlurredSelectedItem apple)
   = ((init [pear, apple, banana] None None)
        \<lparr>phase := SelectedItemHighlighted 0, selectedItems := [apple],
          skipOnce := [PressedInputT]\<rparr>,
      [FocusSelectedItem apple]) \<and>
   update exampleConfig (init [pear, apple, banana] None None) PressedInput
   = (init [pear, apple, banana] None None, [FocusInput]) \<and>
   update exampleConfig
     ((init [pear, apple, banana] None None)\<lparr>skipOnce := [PressedEnterKeyT]\<rparr>)
     PressedEnterKey
   = (init [pear, apple, banana] None None, []) \<and>
   update exampleConfig (init [pear, apple, banana] None None)
     (SetMode (MultiSelect LeftToRight))
   = ((init [pear, apple, banana] None None)\<lparr>selectMode := MultiSelect LeftToRight\<rparr>, [])"
  by code_simp

text \<open>
  Claim C4, amended. For every model, and every event that is not a setter, whose type is
  not in \<^verbatim>\<open>skipOnce\<close> and that the phase does not handle: outside phase
  \<^verbatim>\<open>selected-item-highlighted\<close> the returned model is the input model; in that phase it is the
  input model in every field other than \<^verbatim>\<open>skipOnce\<close>. The effects are \<^verbatim>\<open>focus-input\<close> when
  the event is \<^verbatim>\<open>pressed-input\<close>, then \<^verbatim>\<open>focus-selected-item\<close> of the focused chip in phase
  \<^verbatim>\<open>selected-item-highlighted\<close>, and nothing else: the list is empty for every other event
  in every other phase.
\<close>

theorem unhandled_event_is_no_op:
  assumes "\<not> handlesEvent (phase model) (msgType msg)"
    and "\<not> isSetter (msgType msg)"
    and "msgType msg \<notin> set (skipOnce model)"
  shows "(\<not> isSelectedItemHighlighted model \<longrightarrow> fst (update config model msg) = model) \<and>
         (fst (update config model msg))\<lparr>skipOnce := skipOnce model\<rparr> = model \<and>
         snd (update config model msg) =
           (if msgType msg = PressedInputT then [FocusInput] else [])
           @ (case phase model of
                SelectedItemHighlighted focusedIndex \<Rightarrow>
                  (case at (selectedItems model) focusedIndex of
                     Some item \<Rightarrow> [FocusSelectedItem item]
                   | None \<Rightarrow> [])
              | _ \<Rightarrow> [])"
proof -
  let ?e = "addEffects config model msg model"
  from assms have u: "update config model msg = (scheduleSkips model ?e model, ?e)"
    by (simp add: update_def updateNotSkipped_def Let_def updateModel_unhandled
          updateSetters_not_setter)
  have ns: "\<not> hasScrollEffect ?e"
    using assms(1) by (rule hasScrollEffect_unhandled)
  have s1: "\<not> isSelectedItemHighlighted model \<Longrightarrow> scheduleSkips model ?e model = model"
    using ns by (simp add: scheduleSkips_def Let_def isClosed_def isFocused_def)
  have s2: "(scheduleSkips model ?e model)\<lparr>skipOnce := skipOnce model\<rparr> = model"
    using ns by (simp add: scheduleSkips_def Let_def isClosed_def)
  from u s1 s2 addEffects_unhandled [OF assms(1)] show ?thesis by simp
qed

text \<open>The witness is the claim's second example: \<^verbatim>\<open>pressed-enter-key\<close> in phase \<^verbatim>\<open>blurred\<close>.\<close>

theorem unhandled_event_is_no_op_witness:
  "\<not> handlesEvent (phase (init [pear, apple, banana] None None))
       (msgType (PressedEnterKey :: fruit msg)) \<and>
   \<not> isSetter (msgType (PressedEnterKey :: fruit msg)) \<and>
   msgType (PressedEnterKey :: fruit msg)
     \<notin> set (skipOnce (init [pear, apple, banana] None None)) \<and>
   update exampleConfig (init [pear, apple, banana] None None) PressedEnterKey
     = (init [pear, apple, banana] None None, [])"
proof -
  have h1: "\<not> handlesEvent (phase (init [pear, apple, banana] None None))
       (msgType (PressedEnterKey :: fruit msg))"
    by (simp add: init_def)
  have h2: "\<not> isSetter (msgType (PressedEnterKey :: fruit msg))"
    by (simp add: isSetter_def)
  have h3: "msgType (PressedEnterKey :: fruit msg)
     \<notin> set (skipOnce (init [pear, apple, banana] None None))"
    by (simp add: init_def)
  have h4: "\<not> isSelectedItemHighlighted (init [pear, apple, banana] None None)"
    by (simp add: init_def isSelectedItemHighlighted_def)
  have h5: "phase (init [pear, apple, banana] None None) = Blurred"
    by (simp add: init_def)
  from unhandled_event_is_no_op [OF h1 h2 h3, of exampleConfig] h1 h2 h3 h4 h5
  show ?thesis by (simp add: prod_eq_iff)
qed

section \<open>Replacing the candidate pool under a selection\<close>

lemma toCurrentInputValue_selected_cong:
  assumes "isSelected m" "inputMode m' = inputMode m" "phase m' = phase m"
    "selectedItems m' = selectedItems m" "selectMode m' = selectMode m"
  shows "toCurrentInputValue c m' = toCurrentInputValue c m"
  using assms
  by (simp add: toCurrentInputValue_def modelToInputValue_def isSelected_def toSearchValue_def)

text \<open>
  Claim C3. For every model with a non-empty selection, \<^verbatim>\<open>set-all-items\<close> with a list that
  does not hold the selected item gives a model on which \<^verbatim>\<open>toSelectedItem\<close> returns
  \<^verbatim>\<open>null\<close> and \<^verbatim>\<open>toCurrentInputValue\<close> returns the empty string. The repository's test
  "should unselect an item if its not part of all items" states the same. The code does not
  do it: \<^verbatim>\<open>updateSetters\<close> assigns \<^verbatim>\<open>allItems\<close> and nothing else. As in the test, \<open>apple\<close> is
  selected by pressing it and the pool is then set to the other items: \<open>apple\<close> stays
  selected and stays the text of the input.
\<close>

theorem set_all_items_keeps_absent_selection:
  "toSelectedItem
     (dispatchAll searchConfig (init [pear, apple, banana] None None)
        [FocusedInput, HoveredOverItem 1, HoveredOverItem 1, PressedItem apple])
   = Some apple \<and>
   toCurrentInputValue searchConfig
     (dispatchAll searchConfig (init [pear, apple, banana] None None)
        [FocusedInput, HoveredOverItem 1, HoveredOverItem 1, PressedItem apple])
   = ''apple'' \<and>
   allItems
     (dispatchAll searchConfig (init [pear, apple, banana] None None)
        [FocusedInput, HoveredOverItem 1, HoveredOverItem 1, PressedItem apple,
         SetAllItems [pear, banana]])
   = [pear, banana] \<and>
   toSelectedItem
     (dispatchAll searchConfig (init [pear, apple, banana] None None)
        [FocusedInput, HoveredOverItem 1, HoveredOverItem 1, PressedItem apple,
         SetAllItems [pear, banana]])
   = Some apple \<and>
   toCurrentInputValue searchConfig
     (dispatchAll searchConfig (init [pear, apple, banana] None None)
        [FocusedInput, HoveredOverItem 1, HoveredOverItem 1, PressedItem apple,
         SetAllItems [pear, banana]])
   = ''apple''"
  by code_simp

text \<open>
  The defect does not depend on the example: on every model with a selection, whatever the
  new list, the event leaves \<^verbatim>\<open>selectedItems\<close> and the input text as they were.
\<close>

lemma set_all_items_leaves_selection:
  assumes "isSelected model"
  shows "toSelectedItem (fst (update config model (SetAllItems newItems)))
           = Some (hd (selectedItems model)) \<and>
         selectedItems (fst (update config model (SetAllItems newItems)))
           = selectedItems model \<and>
         toCurrentInputValue config (fst (update config model (SetAllItems newItems)))
           = toCurrentInputValue config model"
proof -
  let ?m = "fst (update config model (SetAllItems newItems))"
  have f: "selectedItems ?m = selectedItems model \<and> inputMode ?m = inputMode model \<and>
           phase ?m = phase model \<and> selectMode ?m = selectMode model"
    by (simp add: update_def updateNotSkipped_def Let_def updateModel_setter isSetter_def
          updateSetters_def)
  with assms have "toCurrentInputValue config ?m = toCurrentInputValue config model"
    by (intro toCurrentInputValue_selected_cong) simp_all
  with f assms show ?thesis
    by (simp add: toSelectedItem_def isSelected_def)
qed

section \<open>What \<^verbatim>\<open>skipOnce\<close> can hold\<close>

text \<open>
  \<^verbatim>\<open>update\<close> only ever schedules \<^verbatim>\<open>hovered-over-item\<close> and \<^verbatim>\<open>pressed-input\<close>, so no
  other event type is suppressed on a model that comes from \<^verbatim>\<open>init\<close> through \<^verbatim>\<open>update\<close>.
\<close>

lemma skipOnce_branches [simp]:
  "skipOnce (unselectButton c m i p) = skipOnce m"
  "skipOnce (closedVerticalArrowKey c m) = skipOnce m"
  "skipOnce (focusSelectedItem c m i) = skipOnce m"
  "skipOnce (toggleSelected c m i) = skipOnce m"
  "skipOnce (updateKeyboardNavigationForSelections m msg) = skipOnce m"
  "skipOnce (highlightedPressedItem c m i) = skipOnce m"
  "skipOnce (highlightedPressedEnterKey c m h) = skipOnce m"
  "skipOnce (chipHorizontalArrowKey m f k) = skipOnce m"
  by (simp_all add: branch_defs Let_def split: msg.splits select_mode.splits option.splits)

lemma skipOnce_updateModel: "skipOnce (updateModel c m msg) = skipOnce m"
  unfolding updateModel_def
  by (cases "phase m"; cases msg; simp add: phase_defs Let_def)

lemma skipOnce_updateSetters: "skipOnce (updateSetters msg m) = skipOnce m"
  by (cases msg; simp add: updateSetters_def split: input_mode.splits)

lemma skipOnce_update_subset:
  "set (skipOnce (fst (update config model msg)))
     \<subseteq> set (skipOnce model) \<union> {HoveredOverItemT, PressedInputT}"
proof (cases "msgType msg \<in> set (skipOnce model)")
  case True
  then show ?thesis
    using set_remove1_subset [of "msgType msg" "skipOnce model"]
    by (auto simp add: update_def removeFirst_remove1)
next
  case False
  with scheduleSkips_skipOnce_subset [of model
         "addEffects config model msg (updateSetters msg (updateModel config model msg))"
         "updateSetters msg (updateModel config model msg)"]
  show ?thesis
    by (simp add: update_def updateNotSkipped_def Let_def skipOnce_updateModel
          skipOnce_updateSetters)
qed

lemma reachable_skipOnce:
  assumes "reachableBy allowed config model"
  shows "set (skipOnce model) \<subseteq> {HoveredOverItemT, PressedInputT}"
  using assms
proof (induction rule: reachableBy.induct)
  case (reachableBy_init allItems0 selectMode0 inputMode0)
  show ?case by (simp add: init_def)
next
  case (reachableBy_update model msg)
  with skipOnce_update_subset [of config model msg] show ?case by blast
qed

section \<open>Pressing an item while nothing is highlighted\<close>

text \<open>
  Claim C1. In phase \<^verbatim>\<open>focused__opened\<close>, \<^verbatim>\<open>pressed-item\<close> of an item that is not the empty
  item toggles the selection and closes the dropdown; in single-select mode the selection
  becomes \<open>[item]\<close>, the phase \<^verbatim>\<open>focused__closed\<close> and the input text the text of the
  item, also when nothing was selected before (Scenario 2). The code does not do this on an
  empty selection: \<^verbatim>\<open>toggleSelected\<close> starts with \<^verbatim>\<open>if (!isSelected(model)) return model\<close>.
  After \<^verbatim>\<open>init\<close> and \<^verbatim>\<open>focused-input\<close>, pressing \<open>apple\<close> returns the model as it was, still
  open and with nothing selected, and no effect.
\<close>

theorem pressed_item_with_empty_selection:
  "fst (update exampleConfig (init [pear, apple, banana] None None) FocusedInput)
   = (init [pear, apple, banana] None None)
       \<lparr>phase := FocusedOpened, skipOnce := [HoveredOverItemT, PressedInputT]\<rparr> \<and>
   update exampleConfig
     (fst (update exampleConfig (init [pear, apple, banana] None None) FocusedInput))
     (PressedItem apple)
   = ((init [pear, apple, banana] None None)
        \<lparr>phase := FocusedOpened, skipOnce := [HoveredOverItemT, PressedInputT]\<rparr>, []) \<and>
   selectedItems
     (fst (update exampleConfig
             (fst (update exampleConfig (init [pear, apple, banana] None None) FocusedInput))
             (PressedItem apple))) = [] \<and>
   toCurrentInputValue exampleConfig
     (fst (update exampleConfig
             (fst (update exampleConfig (init [pear, apple, banana] None None) FocusedInput))
             (PressedItem apple))) = ''''"
  by code_simp

text \<open>
  With an item already selected the same event does what the claim says, and in phase
  \<^verbatim>\<open>focused__opened__highlighted\<close> the sibling branch selects the pressed item whether or not
  anything was selected.
\<close>

lemma pressed_item_replaces_selection:
  assumes "phase model = FocusedOpened"
    and "\<not> isEmptyItem config item"
    and "selectMode model = SingleSelect"
    and "isSelected model"
    and "PressedItemT \<notin> set (skipOnce model)"
  shows "selectedItems (fst (update config model (PressedItem item))) = [item] \<and>
         phase (fst (update config model (PressedItem item))) = FocusedClosed \<and>
         toCurrentInputValue config (fst (update config model (PressedItem item)))
           = toItemInputValue config item"
proof -
  let ?new = "model\<lparr>phase := FocusedClosed, selectedItems := [item]\<rparr>"
  have um: "updateModel config model (PressedItem item)
          = setInputValue ?new (modelToInputValue config ?new)"
    using assms
    by (simp add: updateModel_def updateFocusedOpened_def toggleSelected_def addSelected_def
          Let_def)
  have mi: "modelToInputValue config ?new = toItemInputValue config item"
    using assms(3)
    by (simp add: modelToInputValue_def isSelected_def isNonEmpty_def isMultiSelect_def)
  let ?out = "setInputValue ?new (toItemInputValue config item)"
  have cur: "toCurrentInputValue config ?out = toItemInputValue config item"
    using assms(3)
    by (cases "inputMode model")
       (simp_all add: toCurrentInputValue_def setInputValue_def modelToInputValue_def
          isSelected_def isNonEmpty_def isMultiSelect_def toSearchValue_def)
  have cong: "toCurrentInputValue config (scheduleSkips model e ?out)
                = toCurrentInputValue config ?out" for e
    by (rule toCurrentInputValue_selected_cong)
       (simp_all add: isSelected_def isNonEmpty_def)
  from assms(5) um mi cur cong show ?thesis
    by (simp add: update_def updateNotSkipped_def Let_def updateSetters_def)
qed

lemma highlighted_pressed_item_selects:
  assumes "phase model = FocusedOpenedHighlighted highlightIndex"
    and "\<not> isEmptyItem config item"
    and "selectMode model = SingleSelect"
    and "PressedItemT \<notin> set (skipOnce model)"
  shows "selectedItems (fst (update config model (PressedItem item))) = [item] \<and>
         phase (fst (update config model (PressedItem item))) = FocusedClosed"
  using assms
  by (simp add: update_def updateNotSkipped_def Let_def updateSetters_def updateModel_def
        updateFocusedOpenedHighlighted_def highlightedPressedItem_def addSelected_def)

section \<open>Cardinality of the selection in single-select mode\<close>

lemma reachable_dispatchAll:
  "reachable config model \<Longrightarrow> reachable config (dispatchAll config model msgs)"
proof (induction msgs arbitrary: model)
  case Nil
  then show ?case by simp
next
  case (Cons msg msgs)
  from Cons.prems have "reachable config (fst (update config model msg))"
    unfolding reachable_def by (rule reachableBy_update) (simp add: anyEvent_def)
  then show ?case by (simp add: Cons.IH)
qed

lemma reachable_init: "reachable config (init allItems0 selectMode0 inputMode0)"
  unfolding reachable_def by (rule reachableBy_init)

lemma selectMode_branches [simp]:
  "selectMode (unselectButton c m i p) = selectMode m"
  "selectMode (closedVerticalArrowKey c m) = selectMode m"
  "selectMode (focusSelectedItem c m i) = selectMode m"
  "selectMode (toggleSelected c m i) = selectMode m"
  "selectMode (updateKeyboardNavigationForSelections m msg) = selectMode m"
  "selectMode (highlightedPressedItem c m i) = selectMode m"
  "selectMode (highlightedPressedEnterKey c m h) = selectMode m"
  "selectMode (chipHorizontalArrowKey m f k) = selectMode m"
  by (simp_all add: branch_defs Let_def split: msg.splits select_mode.splits option.splits)

lemma selectMode_updateModel: "selectMode (updateModel c m msg) = selectMode m"
  unfolding updateModel_def
  by (cases "phase m"; cases msg; simp add: phase_defs Let_def)

lemma length_removeItem_le1: "length xs \<le> Suc 0 \<Longrightarrow> length (removeItem c i xs) \<le> Suc 0"
  using length_filter_le [of "\<lambda>x. toItemId c x \<noteq> toItemId c i" xs]
  by (simp add: removeItem_def del: length_filter_le)

lemma length_filterIndexNot: "length (filterIndexNot i k xs) \<le> length xs"
  by (induction xs arbitrary: k) (auto simp add: le_SucI)

lemma length_filterIndexNot_le1:
  "length xs \<le> Suc 0 \<Longrightarrow> length (filterIndexNot i k xs) \<le> Suc 0"
  using length_filterIndexNot [of i k xs] by linarith

lemma single_branches:
  assumes "selectMode m = SingleSelect" "length (selectedItems m) \<le> Suc 0"
  shows "length (selectedItems (unselectButton c m i p)) \<le> Suc 0"
    "length (selectedItems (closedVerticalArrowKey c m)) \<le> Suc 0"
    "length (selectedItems (focusSelectedItem c m i)) \<le> Suc 0"
    "length (selectedItems (toggleSelected c m i)) \<le> Suc 0"
    "length (selectedItems (updateKeyboardNavigationForSelections m msg)) \<le> Suc 0"
    "length (selectedItems (highlightedPressedItem c m i)) \<le> Suc 0"
    "length (selectedItems (highlightedPressedEnterKey c m h)) \<le> Suc 0"
    "length (selectedItems (chipHorizontalArrowKey m f k)) \<le> Suc 0"
  using assms
  by (simp_all add: branch_defs Let_def addSelected_def length_removeItem_le1
        split: msg.splits option.splits)

lemma single_updateModel:
  assumes "selectMode m = SingleSelect" "length (selectedItems m) \<le> Suc 0"
  shows "length (selectedItems (updateModel c m msg)) \<le> Suc 0"
  unfolding updateModel_def
  using assms
  by (cases "phase m"; cases msg;
      simp add: phase_defs Let_def single_branches length_removeItem_le1
        length_filterIndexNot_le1)

lemma cardinalityOk_update:
  assumes "cardinalityOk model" "keepsCardinality model msg"
  shows "cardinalityOk (fst (update config model msg))"
proof (cases "msgType msg \<in> set (skipOnce model)")
  case True
  with assms(1) show ?thesis by (simp add: update_def cardinalityOk_def)
next
  case False
  let ?m = "updateModel config model msg"
  have ok: "cardinalityOk ?m"
    using assms(1) single_updateModel [of model config msg]
    by (auto simp add: cardinalityOk_def selectMode_updateModel)
  have "cardinalityOk (updateSetters msg ?m)"
  proof (cases "isSetter (msgType msg)")
    case True
    then have "?m = model" by (rule updateModel_setter)
    with assms show ?thesis
      by (cases msg; auto simp add: updateSetters_def cardinalityOk_def keepsCardinality_def
            split: input_mode.splits)
  next
    case False
    with ok show ?thesis by (simp add: updateSetters_not_setter)
  qed
  with False show ?thesis
    by (simp add: update_def updateNotSkipped_def Let_def cardinalityOk_def)
qed

text \<open>
  Claim C2 says that every model reachable from \<^verbatim>\<open>init\<close> by \<^verbatim>\<open>update\<close> calls, setters
  included, has at most one selected item in single-select mode. The setters do not check:
  \<^verbatim>\<open>set-selected-items\<close> with two items in single-select mode stores both, and \<^verbatim>\<open>set-mode\<close>
  switches a multi-select model with two selected items to single-select.
\<close>

theorem single_select_cardinality_counterexample:
  "reachable exampleConfig
     (dispatchAll exampleConfig (init [pear, apple, banana] None None)
        [SetSelectedItems [pear, apple]]) \<and>
   selectMode
     (dispatchAll exampleConfig (init [pear, apple, banana] None None)
        [SetSelectedItems [pear, apple]]) = SingleSelect \<and>
   length (selectedItems
     (dispatchAll exampleConfig (init [pear, apple, banana] None None)
        [SetSelectedItems [pear, apple]])) = 2 \<and>
   reachable exampleConfig
     (dispatchAll exampleConfig
        (init [pear, apple, banana] (Some (MultiSelect LeftToRight)) None)
        [SetSelectedItems [pear, apple], SetMode SingleSelect]) \<and>
   selectMode
     (dispatchAll exampleConfig
        (init [pear, apple, banana] (Some (MultiSelect LeftToRight)) None)
        [SetSelectedItems [pear, apple], SetMode SingleSelect]) = SingleSelect \<and>
   length (selectedItems
     (dispatchAll exampleConfig
        (init [pear, apple, banana] (Some (MultiSelect LeftToRight)) None)
        [SetSelectedItems [pear, apple], SetMode SingleSelect])) = 2"
proof -
  have "selectMode
     (dispatchAll exampleConfig (init [pear, apple, banana] None None)
        [SetSelectedItems [pear, apple]]) = SingleSelect"
    by code_simp
  moreover have "length (selectedItems
     (dispatchAll exampleConfig (init [pear, apple, banana] None None)
        [SetSelectedItems [pear, apple]])) = 2"
    by code_simp
  moreover have "selectMode
     (dispatchAll exampleConfig
        (init [pear, apple, banana] (Some (MultiSelect LeftToRight)) None)
        [SetSelectedItems [pear, apple], SetMode SingleSelect]) = SingleSelect"
    by code_simp
  moreover have "length (selectedItems
     (dispatchAll exampleConfig
        (init [pear, apple, banana] (Some (MultiSelect LeftToRight)) None)
        [SetSelectedItems [pear, apple], SetMode SingleSelect])) = 2"
    by code_simp
  ultimately show ?thesis
    using reachable_dispatchAll [OF reachable_init] by blast
qed

text \<open>
  Claim C2, amended. For every model reachable from \<^verbatim>\<open>init\<close> by \<^verbatim>\<open>update\<close> calls whose
  events pass \<open>keepsCardinality\<close> (every event other than a \<^verbatim>\<open>set-selected-items\<close> with more
  than one item in single-select mode and a \<^verbatim>\<open>set-mode\<close> to single-select with more than one
  item selected), single-select mode implies at most one selected item.
\<close>

theorem single_select_cardinality:
  assumes "reachableBy keepsCardinality config model"
    and "selectMode model = SingleSelect"
  shows "length (selectedItems model) \<le> 1"
proof -
  from assms(1) have "cardinalityOk model"
  proof (induction rule: reachableBy.induct)
    case (reachableBy_init allItems0 selectMode0 inputMode0)
    show ?case by (simp add: cardinalityOk_def init_def)
  next
    case (reachableBy_update model msg)
    then show ?case by (simp add: cardinalityOk_update)
  qed
  with assms(2) show ?thesis by (simp add: cardinalityOk_def)
qed

theorem single_select_cardinality_witness:
  "reachableBy keepsCardinality exampleConfig
     (fst (update exampleConfig (init [pear, apple, banana] None None)
             (SetSelectedItems [apple]))) \<and>
   selectMode
     (fst (update exampleConfig (init [pear, apple, banana] None None)
             (SetSelectedItems [apple]))) = SingleSelect \<and>
   length (selectedItems
     (fst (update exampleConfig (init [pear, apple, banana] None None)
             (SetSelectedItems [apple])))) \<le> 1"
proof -
  have k: "keepsCardinality (init [pear, apple, banana] None None) (SetSelectedItems [apple])"
    by (simp add: keepsCardinality_def)
  have r0: "reachableBy keepsCardinality exampleConfig (init [pear, apple, banana] None None)"
    by (rule reachableBy_init)
  from r0 k have r: "reachableBy keepsCardinality exampleConfig
     (fst (update exampleConfig (init [pear, apple, banana] None None)
             (SetSelectedItems [apple])))"
    by (rule reachableBy_update)
  have s: "selectMode
     (fst (update exampleConfig (init [pear, apple, banana] None None)
             (SetSelectedItems [apple]))) = SingleSelect"
    by code_simp
  from single_select_cardinality [OF r s] r s show ?thesis by blast
qed

section \<open>The focused chip\<close>

lemma clampIndex_range:
  "0 < len \<Longrightarrow> 0 \<le> clampIndex i len \<and> clampIndex i len < len"
  by (auto simp add: clampIndex_def)

lemma findIndex_selected:
  "list_ex p xs \<Longrightarrow> 0 \<le> findIndex p xs \<and> findIndex p xs < int (length xs)"
  using findIndex_none [of p xs] findIndex_ge [of p xs] findIndex_less [of p xs]
  by (auto simp add: list_ex_iff)

lemma chipFocusValid_not_chip:
  "\<not> isSelectedItemHighlighted m \<Longrightarrow> chipFocusValid m"
  by (cases "phase m"; simp add: chipFocusValid_def isSelectedItemHighlighted_def)

lemma chip_frames [simp]:
  "isSelectedItemHighlighted (setInputValue m v) = isSelectedItemHighlighted m"
  "isSelectedItemHighlighted (clearInputValue m) = isSelectedItemHighlighted m"
  "isSelectedItemHighlighted (resetInputValue c m) = isSelectedItemHighlighted m"
  "chipFocusValid (setInputValue m v) = chipFocusValid m"
  "chipFocusValid (clearInputValue m) = chipFocusValid m"
  "chipFocusValid (resetInputValue c m) = chipFocusValid m"
  by (simp_all add: isSelectedItemHighlighted_def chipFocusValid_def
        split: model_state.splits)

lemma chipFocusValid_focusSelectedItem:
  "isItemSelected c m i \<Longrightarrow> chipFocusValid (focusSelectedItem c m i)"
  using findIndex_selected [of "\<lambda>x. toItemId c x = toItemId c i" "selectedItems m"]
  by (simp add: focusSelectedItem_def chipFocusValid_def isItemSelected_def)

lemma chipFocusValid_keyboardNavigation:
  "chipFocusValid m \<Longrightarrow> chipFocusValid (updateKeyboardNavigationForSelections m msg)"
  by (auto simp add: updateKeyboardNavigationForSelections_def chipFocusValid_def
        isSelected_def isNonEmpty_def split: msg.splits select_mode.splits)

lemma chipFocusValid_chipHorizontalArrowKey:
  "selectedItems m \<noteq> [] \<Longrightarrow> chipFocusValid (chipHorizontalArrowKey m f k)"
  using clampIndex_range [of "int (length (selectedItems m))"]
  by (simp add: chipHorizontalArrowKey_def chipFocusValid_def Let_def
        split: select_mode.splits)

lemma chipFocusValid_branches:
  "\<not> isSelectedItemHighlighted m \<Longrightarrow> chipFocusValid (unselectButton c m i Blurred)"
  "\<not> isSelectedItemHighlighted m \<Longrightarrow> chipFocusValid (unselectButton c m i FocusedClosed)"
  "\<not> isSelectedItemHighlighted m \<Longrightarrow> chipFocusValid (unselectButton c m i FocusedOpened)"
  "\<not> isSelectedItemHighlighted m \<Longrightarrow>
   chipFocusValid (unselectButton c m i (FocusedOpenedHighlighted h))"
  "chipFocusValid (closedVerticalArrowKey c m)"
  "\<not> isSelectedItemHighlighted m \<Longrightarrow> chipFocusValid (toggleSelected c m i)"
  "chipFocusValid (highlightedPressedItem c m i)"
  "chipFocusValid (highlightedPressedEnterKey c m h)"
  by (simp_all add: branch_defs Let_def isSelectedItemHighlighted_def chipFocusValid_def
        split: option.splits model_state.splits)

lemma chipFocusValid_phase [simp]:
  "chipFocusValid (m\<lparr>phase := Blurred\<rparr>)"
  "chipFocusValid (m\<lparr>phase := FocusedClosed\<rparr>)"
  "chipFocusValid (m\<lparr>phase := FocusedOpened\<rparr>)"
  "chipFocusValid (m\<lparr>phase := FocusedOpenedHighlighted h\<rparr>)"
  "chipFocusValid (m\<lparr>phase := Blurred, selectedItems := xs\<rparr>)"
  "chipFocusValid (m\<lparr>phase := FocusedClosed, selectedItems := xs\<rparr>)"
  "chipFocusValid (m\<lparr>phase := FocusedOpened, selectedItems := xs\<rparr>)"
  "chipFocusValid (m\<lparr>selectedItems := xs, phase := FocusedClosed\<rparr>)"
  "chipFocusValid (m\<lparr>selectedItems := xs, phase := FocusedOpened\<rparr>)"
  by (simp_all add: chipFocusValid_def)

lemma chipFocusValid_selectedItems [simp]:
  "\<not> isSelectedItemHighlighted m \<Longrightarrow> chipFocusValid (m\<lparr>selectedItems := xs\<rparr>)"
  by (simp add: chipFocusValid_def isSelectedItemHighlighted_def split: model_state.splits)

lemma chipFocusValid_updateModel:
  assumes "chipFocusValid m" "keepsChipFocus c m msg"
  shows "chipFocusValid (updateModel c m msg)"
proof (cases "isSelectedItemHighlighted m")
  case False
  note nc = False
  note rules = keepsChipFocus_def chipFocusValid_focusSelectedItem
    chipFocusValid_keyboardNavigation chipFocusValid_branches Let_def
  show ?thesis
  proof (cases "phase m")
    case Blurred
    with assms nc show ?thesis
      by (cases msg; simp add: updateModel_def updateBlurred_def rules)
  next
    case FocusedClosed
    with assms nc show ?thesis
      by (cases msg; simp add: updateModel_def updateFocusedClosed_def rules)
  next
    case FocusedOpened
    with assms nc show ?thesis
      by (cases msg; simp add: updateModel_def updateFocusedOpened_def rules)
  next
    case (FocusedOpenedHighlighted h)
    with assms nc show ?thesis
      by (cases msg; simp add: updateModel_def updateFocusedOpenedHighlighted_def rules)
  next
    case (SelectedItemHighlighted f)
    with nc show ?thesis by (simp add: isSelectedItemHighlighted_def)
  qed
next
  case True
  then obtain f where ph: "phase m = SelectedItemHighlighted f"
    by (cases "phase m") (simp_all add: isSelectedItemHighlighted_def)
  with assms(1) have pos: "selectedItems m \<noteq> []"
    by (auto simp add: chipFocusValid_def)
  have unsel: "chipFocusValid
      (m\<lparr>selectedItems := removeItem c i (selectedItems m),
          phase := SelectedItemHighlighted
                     (clampIndex f (int (length (removeItem c i (selectedItems m)))))\<rparr>)"
    if "isNonEmpty (removeItem c i (selectedItems m))" for i
    using that clampIndex_range [of "int (length (removeItem c i (selectedItems m)))" f]
    by (simp add: chipFocusValid_def isNonEmpty_def)
  from ph assms pos unsel show ?thesis
    by (cases msg; simp add: updateModel_def updateSelectedItemHighlighted_def keepsChipFocus_def
          chipFocusValid_focusSelectedItem chipFocusValid_chipHorizontalArrowKey
          chipFocusValid_branches Let_def)
qed

lemma chipFocusValid_update:
  assumes "chipFocusValid model" "keepsChipFocus config model msg"
  shows "chipFocusValid (fst (update config model msg))"
proof (cases "msgType msg \<in> set (skipOnce model)")
  case True
  with assms(1) show ?thesis
    by (simp add: update_def chipFocusValid_def split: model_state.splits)
next
  case False
  let ?m = "updateModel config model msg"
  have ok: "chipFocusValid ?m"
    using assms by (rule chipFocusValid_updateModel)
  have "chipFocusValid (updateSetters msg ?m)"
  proof (cases "isSetter (msgType msg)")
    case True
    then have "?m = model" by (rule updateModel_setter)
    with assms show ?thesis
      by (cases msg; auto simp add: updateSetters_def chipFocusValid_def keepsChipFocus_def
            isSelected_def isNonEmpty_def isHighlighted_def
            split: input_mode.splits model_state.splits)
  next
    case False
    with ok show ?thesis by (simp add: updateSetters_not_setter)
  qed
  with False show ?thesis
    by (simp add: update_def updateNotSkipped_def Let_def chipFocusValid_def
          split: model_state.splits)
qed

text \<open>
  Claim C9 says that in phase \<^verbatim>\<open>selected-item-highlighted\<close> of a reachable model
  \<^verbatim>\<open>focusedIndex\<close> is an index into \<^verbatim>\<open>selectedItems\<close>. \<^verbatim>\<open>focused-selected-item\<close> stores the
  result of \<^verbatim>\<open>findIndex\<close> as it is, \<open>-1\<close> for an item that is not selected, and
  \<^verbatim>\<open>set-selected-items\<close> replaces the list under a focused chip without touching the index.
\<close>

theorem chip_focus_index_counterexample:
  "reachable exampleConfig
     (dispatchAll exampleConfig (init [pear, apple, banana] None None)
        [FocusedSelectedItem apple]) \<and>
   phase
     (dispatchAll exampleConfig (init [pear, apple, banana] None None)
        [FocusedSelectedItem apple]) = SelectedItemHighlighted (- 1) \<and>
   selectedItems
     (dispatchAll exampleConfig (init [pear, apple, banana] None None)
        [FocusedSelectedItem apple]) = [] \<and>
   reachable exampleConfig
     (dispatchAll exampleConfig
        (init [pear, apple, banana] (Some (MultiSelect LeftToRight)) None)
        [SetSelectedItems [pear, apple], FocusedSelectedItem apple, SetSelectedItems [pear]]) \<and>
   phase
     (dispatchAll exampleConfig
        (init [pear, apple, banana] (Some (MultiSelect LeftToRight)) None)
        [SetSelectedItems [pear, apple], FocusedSelectedItem apple, SetSelectedItems [pear]])
     = SelectedItemHighlighted 1 \<and>
   selectedItems
     (dispatchAll exampleConfig
        (init [pear, apple, banana] (Some (MultiSelect LeftToRight)) None)
        [SetSelectedItems [pear, apple], FocusedSelectedItem apple, SetSelectedItems [pear]])
     = [pear]"
proof -
  have "phase
     (dispatchAll exampleConfig (init [pear, apple, banana] None None)
        [FocusedSelectedItem apple]) = SelectedItemHighlighted (- 1)"
    by code_simp
  moreover have "selectedItems
     (dispatchAll exampleConfig (init [pear, apple, banana] None None)
        [FocusedSelectedItem apple]) = []"
    by code_simp
  moreover have "phase
     (dispatchAll exampleConfig
        (init [pear, apple, banana] (Some (MultiSelect LeftToRight)) None)
        [SetSelectedItems [pear, apple], FocusedSelectedItem apple, SetSelectedItems [pear]])
     = SelectedItemHighlighted 1"
    by code_simp
  moreover have "selectedItems
     (dispatchAll exampleConfig
        (init [pear, apple, banana] (Some (MultiSelect LeftToRight)) None)
        [SetSelectedItems [pear, apple], FocusedSelectedItem apple, SetSelectedItems [pear]])
     = [pear]"
    by code_simp
  ultimately show ?thesis
    using reachable_dispatchAll [OF reachable_init] by blast
qed

text \<open>
  Claim C9, amended. For every model reachable from \<^verbatim>\<open>init\<close> by \<^verbatim>\<open>update\<close> calls whose
  events pass \<open>keepsChipFocus\<close> (every \<^verbatim>\<open>focused-selected-item\<close> names a selected item, every
  \<^verbatim>\<open>set-selected-items\<close> under a focused chip keeps the list longer than \<^verbatim>\<open>focusedIndex\<close>),
  in phase \<^verbatim>\<open>selected-item-highlighted\<close> \<^verbatim>\<open>focusedIndex\<close> is an index into
  \<^verbatim>\<open>selectedItems\<close>; removals through \<^verbatim>\<open>pressed-unselect-button\<close> clamp it. The proof uses of
  \<^verbatim>\<open>clampIndex\<close> only that its result lies in \<open>[0, len - 1]\<close> when \<open>len > 0\<close>.
\<close>

theorem chip_focus_index_valid:
  assumes "reachableBy (keepsChipFocus config) config model"
    and "phase model = SelectedItemHighlighted focusedIndex"
  shows "0 \<le> focusedIndex \<and> focusedIndex < int (length (selectedItems model))"
proof -
  from assms(1) have "chipFocusValid model"
  proof (induction rule: reachableBy.induct)
    case (reachableBy_init allItems0 selectMode0 inputMode0)
    show ?case by (simp add: chipFocusValid_def init_def)
  next
    case (reachableBy_update model msg)
    then show ?case by (simp add: chipFocusValid_update)
  qed
  with assms(2) show ?thesis by (simp add: chipFocusValid_def)
qed

theorem chip_focus_index_valid_witness:
  "reachableBy (keepsChipFocus exampleConfig) exampleConfig
     (fst (update exampleConfig
        (fst (update exampleConfig
           (init [pear, apple, banana] (Some (MultiSelect LeftToRight)) None)
           (SetSelectedItems [pear, apple])))
        (FocusedSelectedItem apple))) \<and>
   phase
     (fst (update exampleConfig
        (fst (update exampleConfig
           (init [pear, apple, banana] (Some (MultiSelect LeftToRight)) None)
           (SetSelectedItems [pear, apple])))
        (FocusedSelectedItem apple))) = SelectedItemHighlighted 1 \<and>
   (0::int) \<le> 1 \<and>
   1 < int (length (selectedItems
     (fst (update exampleConfig
        (fst (update exampleConfig
           (init [pear, apple, banana] (Some (MultiSelect LeftToRight)) None)
           (SetSelectedItems [pear, apple])))
        (FocusedSelectedItem apple)))))"
proof -
  let ?m0 = "init [pear, apple, banana] (Some (MultiSelect LeftToRight)) None"
  let ?m1 = "fst (update exampleConfig ?m0 (SetSelectedItems [pear, apple]))"
  let ?m2 = "fst (update exampleConfig ?m1 (FocusedSelectedItem apple))"
  have k1: "keepsChipFocus exampleConfig ?m0 (SetSelectedItems [pear, apple])"
    by code_simp
  have k2: "keepsChipFocus exampleConfig ?m1 (FocusedSelectedItem apple)"
    by code_simp
  have r0: "reachableBy (keepsChipFocus exampleConfig) exampleConfig ?m0"
    by (rule reachableBy_init)
  from r0 k1 have r1: "reachableBy (keepsChipFocus exampleConfig) exampleConfig ?m1"
    by (rule reachableBy_update)
  from r1 k2 have r: "reachableBy (keepsChipFocus exampleConfig) exampleConfig ?m2"
    by (rule reachableBy_update)
  have p: "phase ?m2 = SelectedItemHighlighted 1"
    by code_simp
  from chip_focus_index_valid [OF r p] r p show ?thesis by blast
qed

section \<open>Moving the highlight with the arrow keys\<close>













section \<open>Opening the dropdown with the arrow keys\<close>









end
